theory Spec2Isabelle
  imports Main
begin

section \<open>Edits for a file or directory rename (services/getEditsForFileRename.ts)\<close>

text \<open>
  A shallow embedding of \<^verbatim>\<open>src/services/getEditsForFileRename.ts\<close>. A JavaScript
  \<^verbatim>\<open>string | undefined\<close> is a \<open>string option\<close>; \<^verbatim>\<open>Debug.assertDefined\<close> raising
  is the error value \<open>AssertionFailure\<close> of a sum type; the change tracker is the list of
  text changes recorded so far, passed along and returned.

  The string and path helpers the file calls live in the compiler's core utilities, which
  are not part of the sources at hand. They are modelled below for POSIX-style paths
  (separator \<^verbatim>\<open>/\<close>, root \<^verbatim>\<open>/\<close>, no drive letters, URLs or backslashes).
\<close>

subsection \<open>String helpers\<close>

text \<open>Modelled from the spec: \<^verbatim>\<open>startsWith(str, prefix)\<close> of the core utilities, the
  prefix containment test of the spec's section 4.1.\<close>
definition startsWith :: "string \<Rightarrow> string \<Rightarrow> bool" where
  "startsWith str pre = (take (length pre) str = pre)"

text \<open>Modelled from the spec: \<^verbatim>\<open>endsWith(str, suffix)\<close> of the core utilities, the
  suffix containment test of the spec's section 4.1.\<close>
definition endsWith :: "string \<Rightarrow> string \<Rightarrow> bool" where
  "endsWith str suf = (length suf \<le> length str \<and> drop (length str - length suf) str = suf)"

text \<open>Modelled from the spec: \<^verbatim>\<open>tryRemovePrefix(str, prefix)\<close> of the core utilities,
  "stripping the prefix" of the spec's section 4.2: the rest of the string, which may be
  empty, or undefined when the string does not start with the prefix.\<close>
definition tryRemovePrefix :: "string \<Rightarrow> string \<Rightarrow> string option" where
  "tryRemovePrefix str pre = (if startsWith str pre then Some (drop (length pre) str) else None)"

text \<open>Modelled from the spec: \<^verbatim>\<open>tryRemoveSuffix(str, suffix)\<close> of the core utilities,
  "strip that same suffix" of the spec's section 4.3.\<close>
definition tryRemoveSuffix :: "string \<Rightarrow> string \<Rightarrow> string option" where
  "tryRemoveSuffix str suf =
     (if endsWith str suf then Some (take (length str - length suf) str) else None)"

text \<open>Modelled from the spec: \<^verbatim>\<open>firstDefined(array, callback)\<close> of the core utilities,
  "the first candidate for which ... yields a defined replacement" of the spec's section 4.4.\<close>
fun firstDefined :: "'a list \<Rightarrow> ('a \<Rightarrow> 'b option) \<Rightarrow> 'b option" where
  "firstDefined [] f = None"
| "firstDefined (x # xs) f = (case f x of Some r \<Rightarrow> Some r | None \<Rightarrow> firstDefined xs f)"

subsection \<open>Path arithmetic\<close>

text \<open>Modelled from the spec: \<^verbatim>\<open>getRootLength(path)\<close> of the core utilities, for POSIX
  paths: an absolute path has the root \<^verbatim>\<open>/\<close>, any other path has no root.\<close>
definition getRootLength :: "string \<Rightarrow> nat" where
  "getRootLength path = (if startsWith path ''/'' then 1 else 0)"

text \<open>Modelled from the spec: \<^verbatim>\<open>pathIsRelative(path)\<close> of the core utilities, the spec's
  \<^verbatim>\<open>classify(text)\<close>: relative by a leading current- or parent-directory marker.\<close>
definition pathIsRelative :: "string \<Rightarrow> bool" where
  "pathIsRelative path =
     (path = ''.'' \<or> path = ''..'' \<or> startsWith path ''./'' \<or> startsWith path ''../'')"

text \<open>Modelled from the spec: the three helpers of the core utilities that test for, remove
  and add the separator at the end of a path.\<close>
definition hasTrailingDirectorySeparator :: "string \<Rightarrow> bool" where
  "hasTrailingDirectorySeparator path = (path \<noteq> [] \<and> last path = CHR ''/'')"

definition removeTrailingDirectorySeparator :: "string \<Rightarrow> string" where
  "removeTrailingDirectorySeparator path =
     (if hasTrailingDirectorySeparator path then butlast path else path)"

definition ensureTrailingDirectorySeparator :: "string \<Rightarrow> string" where
  "ensureTrailingDirectorySeparator path =
     (if hasTrailingDirectorySeparator path then path else path @ ''/'')"

text \<open>Modelled from the spec: \<^verbatim>\<open>path.lastIndexOf("/")\<close>, the index of the last separator of
  a path, if it has one.\<close>
fun lastIndexOfSep :: "string \<Rightarrow> nat option" where
  "lastIndexOfSep [] = None"
| "lastIndexOfSep (c # cs) =
     (case lastIndexOfSep cs of
        Some i \<Rightarrow> Some (Suc i)
      | None \<Rightarrow> (if c = CHR ''/'' then Some 0 else None))"

text \<open>Modelled from the spec: \<^verbatim>\<open>getDirectoryPath(path)\<close> of the core utilities, the spec's
  \<^verbatim>\<open>dirOf\<close> and "stripping one trailing directory level": the path up to its last
  separator, never shorter than its root; a bare root is its own directory.\<close>
definition getDirectoryPath :: "string \<Rightarrow> string" where
  "getDirectoryPath path =
     (let rootLength = getRootLength path in
      if rootLength = length path then path
      else (let p = removeTrailingDirectorySeparator path in
            take (max rootLength (case lastIndexOfSep p of None \<Rightarrow> 0 | Some i \<Rightarrow> i)) p))"

text \<open>Modelled from the spec: \<^verbatim>\<open>combinePaths(path, relativePath)\<close> of the core utilities,
  the join of the spec's \<^verbatim>\<open>combine(base, rel)\<close>: an empty side gives the other, a rooted
  second path replaces the first, otherwise the two are joined by one separator.\<close>
definition combinePaths :: "string \<Rightarrow> string \<Rightarrow> string" where
  "combinePaths path relativePath =
     (if relativePath = [] then path
      else if path = [] \<or> getRootLength relativePath \<noteq> 0 then relativePath
      else ensureTrailingDirectorySeparator path @ relativePath)"

text \<open>Modelled from the spec: splitting at every separator, as \<^verbatim>\<open>String.prototype.split\<close>
  does (the empty string gives one empty piece), and joining with separators, as
  \<^verbatim>\<open>Array.prototype.join\<close> does.\<close>
fun splitSep :: "string \<Rightarrow> string list" where
  "splitSep [] = [[]]"
| "splitSep (c # cs) =
     (if c = CHR ''/'' then [] # splitSep cs
      else (case splitSep cs of [] \<Rightarrow> [[c]] | p # ps \<Rightarrow> (c # p) # ps))"

fun joinSep :: "string list \<Rightarrow> string" where
  "joinSep [] = []"
| "joinSep [p] = p"
| "joinSep (p # q # ps) = p @ ''/'' @ joinSep (q # ps)"

text \<open>Modelled from the spec: \<^verbatim>\<open>getPathComponents(path)\<close> of the core utilities: the root
  first, then the segments between separators, a trailing empty segment dropped.\<close>
definition getPathComponents :: "string \<Rightarrow> string list" where
  "getPathComponents path =
     (let rootLength = getRootLength path;
          rest = splitSep (drop rootLength path)
      in take rootLength path # (if rest \<noteq> [] \<and> last rest = [] then butlast rest else rest))"

text \<open>Modelled from the spec: \<^verbatim>\<open>reducePathComponents(components)\<close> of the core utilities,
  "collapsing \<^verbatim>\<open>.\<close>/\<^verbatim>\<open>..\<close> segments" (section 4.1), with "excess parent-directory segments
  ... normalized best-effort" (section 7): below a root they are dropped, in a relative
  path they are kept. The accumulator holds the reduced components in reverse.\<close>
fun reduceLoop :: "string \<Rightarrow> string list \<Rightarrow> string list \<Rightarrow> string list" where
  "reduceLoop root acc [] = rev acc"
| "reduceLoop root acc (c # cs) =
     (if c = [] \<or> c = ''.'' then reduceLoop root acc cs
      else if c = ''..'' then
        (case acc of
           [] \<Rightarrow> (if root \<noteq> [] then reduceLoop root acc cs else reduceLoop root (c # acc) cs)
         | a # as \<Rightarrow> (if a \<noteq> ''..'' then reduceLoop root as cs else reduceLoop root (c # acc) cs))
      else reduceLoop root (c # acc) cs)"

definition reducePathComponents :: "string list \<Rightarrow> string list" where
  "reducePathComponents components =
     (case components of [] \<Rightarrow> [] | root # rest \<Rightarrow> root # reduceLoop root [] rest)"

text \<open>Modelled from the spec: \<^verbatim>\<open>getPathFromPathComponents(components)\<close> of the core
  utilities: the root, then the segments joined by separators.\<close>
definition getPathFromPathComponents :: "string list \<Rightarrow> string" where
  "getPathFromPathComponents components =
     (case components of
        [] \<Rightarrow> []
      | root # rest \<Rightarrow> (if root = [] then [] else ensureTrailingDirectorySeparator root) @ joinSep rest)"

text \<open>Modelled from the spec: \<^verbatim>\<open>normalizePath(path)\<close> of the core utilities, the
  normalization of the spec's \<^verbatim>\<open>combine(base, rel)\<close>; a trailing separator of the input
  is kept on a non-empty result.\<close>
definition normalizePath :: "string \<Rightarrow> string" where
  "normalizePath path =
     (let normalized = getPathFromPathComponents (reducePathComponents (getPathComponents path))
      in if normalized \<noteq> [] \<and> hasTrailingDirectorySeparator path
         then ensureTrailingDirectorySeparator normalized else normalized)"

text \<open>Modelled from the spec: \<^verbatim>\<open>ensurePathIsNonModuleName(path)\<close> of the core utilities,
  the "non-module form" of the spec's section 4.2: a path that is neither rooted nor
  relative gets a leading \<^verbatim>\<open>./\<close>.\<close>
definition ensurePathIsNonModuleName :: "string \<Rightarrow> string" where
  "ensurePathIsNonModuleName path =
     (if getRootLength path = 0 \<and> \<not> pathIsRelative path then ''./'' @ path else path)"

text \<open>Modelled from the spec: \<^verbatim>\<open>toLowerCase\<close> on file names, for the ASCII letters.\<close>
definition toLowerCaseChar :: "char \<Rightarrow> char" where
  "toLowerCaseChar c =
     (let n = (of_char c :: nat) in if 65 \<le> n \<and> n \<le> 90 then char_of (n + 32) else c)"

definition toLowerCase :: "string \<Rightarrow> string" where
  "toLowerCase s = map toLowerCaseChar s"

text \<open>Modelled from the spec: \<^verbatim>\<open>createGetCanonicalFileName(useCaseSensitiveFileNames)\<close> of
  the core utilities, the spec's HostCaseSensitivity flag turned into a function on file
  names: the identity on a case-sensitive host, lower-casing otherwise.\<close>
definition createGetCanonicalFileName :: "bool \<Rightarrow> string \<Rightarrow> string" where
  "createGetCanonicalFileName useCaseSensitiveFileNames =
     (if useCaseSensitiveFileNames then (\<lambda>fileName. fileName) else toLowerCase)"

text \<open>The third argument of \<^verbatim>\<open>getRelativePathFromDirectory\<close>: either the boolean
  \<^verbatim>\<open>ignoreCase\<close> or a canonical-file-name function.\<close>
datatype caseArgument = IgnoreCase bool | GetCanonicalFileName "string \<Rightarrow> string"

text \<open>Modelled from the spec: comparison of two strings without regard to case, and the
  number of leading components two component lists share under a comparison.\<close>
definition equateStringsCaseInsensitive :: "string \<Rightarrow> string \<Rightarrow> bool" where
  "equateStringsCaseInsensitive a b = (toLowerCase a = toLowerCase b)"

fun commonLength :: "(string \<Rightarrow> string \<Rightarrow> bool) \<Rightarrow> string list \<Rightarrow> string list \<Rightarrow> nat" where
  "commonLength eq (a # as) (b # bs) = (if eq a b then Suc (commonLength eq as bs) else 0)"
| "commonLength eq as bs = 0"

text \<open>Modelled from the spec: the component form of \<^verbatim>\<open>relativePath(fromDir, toDir)\<close>
  (section 4.1): the components the two reduced paths share are dropped, one \<^verbatim>\<open>..\<close> is
  written for each remaining component of the origin, then the remaining components of the
  target follow. Paths with different roots give the target unchanged.\<close>
definition getPathComponentsRelativeTo ::
  "string \<Rightarrow> string \<Rightarrow> (string \<Rightarrow> string \<Rightarrow> bool) \<Rightarrow> (string \<Rightarrow> string) \<Rightarrow> string list" where
  "getPathComponentsRelativeTo from to stringEqualityComparer getCanonicalFileName =
     (let fromComponents = reducePathComponents (getPathComponents from);
          toComponents = reducePathComponents (getPathComponents to);
          start = (case (fromComponents, toComponents) of
                     (f # fs, t # ts) \<Rightarrow>
                       (if equateStringsCaseInsensitive (getCanonicalFileName f) (getCanonicalFileName t)
                        then Suc (commonLength
                                    (\<lambda>a b. stringEqualityComparer (getCanonicalFileName a) (getCanonicalFileName b))
                                    fs ts)
                        else 0)
                   | _ \<Rightarrow> 0)
      in if start = 0 then toComponents
         else [] # replicate (length fromComponents - start) ''..'' @ drop start toComponents)"

text \<open>Modelled from the spec: \<^verbatim>\<open>getRelativePathFromDirectory(from, to, ignoreCase)\<close> and
  its overload taking a canonical-file-name function, the spec's
  \<^verbatim>\<open>relativePath(fromDir, toDir)\<close>: "normalized relative path (posix-style separators, no
  trailing slash), computed under the active case-sensitivity setting". Following section
  4.2 of the spec, the relative path between two equal directories is \<^verbatim>\<open>.\<close>. The two
  paths are meant to be both absolute or both relative; the spec names no fault here
  (section 7), and the model is total.\<close>
definition getRelativePathFromDirectory :: "string \<Rightarrow> string \<Rightarrow> caseArgument \<Rightarrow> string" where
  "getRelativePathFromDirectory from to arg =
     (let getCanonicalFileName = (case arg of GetCanonicalFileName f \<Rightarrow> f | IgnoreCase b \<Rightarrow> (\<lambda>x. x));
          ignoreCase = (case arg of IgnoreCase b \<Rightarrow> b | GetCanonicalFileName f \<Rightarrow> False);
          pathComponents = getPathComponentsRelativeTo from to
             (if ignoreCase then equateStringsCaseInsensitive else (\<lambda>a b. a = b)) getCanonicalFileName;
          relative = getPathFromPathComponents pathComponents
      in if relative = [] then ''.'' else relative)"

text \<open>Modelled from the spec: \<^verbatim>\<open>getRelativePathFromFile(from, to, getCanonicalFileName)\<close> of
  the core utilities, the file-level \<^verbatim>\<open>rel = relativePath(old, new)\<close> of the spec's section
  4.3: the path to \<^verbatim>\<open>to\<close> relative to the directory holding \<^verbatim>\<open>from\<close>, in non-module form.\<close>
definition getRelativePathFromFile :: "string \<Rightarrow> string \<Rightarrow> (string \<Rightarrow> string) \<Rightarrow> string" where
  "getRelativePathFromFile from to getCanonicalFileName =
     ensurePathIsNonModuleName
       (getRelativePathFromDirectory (getDirectoryPath from) to (GetCanonicalFileName getCanonicalFileName))"

text \<open>Modelled from the spec: \<^verbatim>\<open>fileExtensionIs(path, extension)\<close> of the core utilities: the
  path ends with the extension and is longer than it.\<close>
definition fileExtensionIs :: "string \<Rightarrow> string \<Rightarrow> bool" where
  "fileExtensionIs path extension = (length extension < length path \<and> endsWith path extension)"

text \<open>Modelled from the spec: the recognized file extensions, those of the index files the
  spec lists in section 4.1 (\<^verbatim>\<open>index.{js,jsx,ts,d.ts,tsx}\<close>), the declaration extension
  first so that it is removed whole.\<close>
definition extensionsToRemove :: "string list" where
  "extensionsToRemove = [''.d.ts'', ''.ts'', ''.js'', ''.tsx'', ''.jsx'']"

text \<open>Modelled from the spec: \<^verbatim>\<open>removeFileExtension(path)\<close> of the core utilities, "strips
  one recognized file extension" (section 4.1); a path without one is returned unchanged.\<close>
definition removeFileExtension :: "string \<Rightarrow> string" where
  "removeFileExtension path =
     (case firstDefined extensionsToRemove
             (\<lambda>ext. if fileExtensionIs path ext
                    then Some (take (length path - length ext) path) else None) of
        Some extensionless \<Rightarrow> extensionless
      | None \<Rightarrow> path)"

text \<open>Modelled from the spec: \<^verbatim>\<open>isAnySupportedFileExtension(path)\<close> of the core utilities:
  the path carries one of the recognized file extensions.\<close>
definition isAnySupportedFileExtension :: "string \<Rightarrow> bool" where
  "isAnySupportedFileExtension path = (\<exists>ext \<in> set extensionsToRemove. fileExtensionIs path ext)"

text \<open>Modelled from the spec: \<^verbatim>\<open>resolveTripleslashReference(moduleName, containingFile)\<close>:
  a reference directive is resolved "relative to the file's own directory (no module
  resolution needed)" (section 4.4); a rooted reference stands for itself.\<close>
definition resolveTripleslashReference :: "string \<Rightarrow> string \<Rightarrow> string" where
  "resolveTripleslashReference moduleName containingFile =
     normalizePath (if getRootLength moduleName \<noteq> 0 then moduleName
                    else combinePaths (getDirectoryPath containingFile) moduleName)"

text \<open>The truth value JavaScript gives a \<^verbatim>\<open>string | undefined\<close> in a condition:
  \<^verbatim>\<open>undefined\<close> and the empty string are false.\<close>
definition truthy :: "string option \<Rightarrow> bool" where
  "truthy v = (case v of None \<Rightarrow> False | Some s \<Rightarrow> s \<noteq> [])"

subsection \<open>The program's data\<close>

text \<open>The one exception the file can raise: \<^verbatim>\<open>Debug.assertDefined\<close> on \<^verbatim>\<open>undefined\<close>.\<close>
datatype error = AssertionFailure

text \<open>A text range, \<^verbatim>\<open>pos\<close> and \<^verbatim>\<open>end\<close>.\<close>

record TextRange =
  pos :: int
  end_pos :: int

text \<open>A string literal node: \<^verbatim>\<open>getStart(sourceFile)\<close>, \<^verbatim>\<open>end\<close> and \<^verbatim>\<open>text\<close>.\<close>
record StringLiteralLike =
  getStart :: int
  node_end :: int
  node_text :: string

text \<open>A reference directive: a text range with the file name it names.\<close>
record FileReference = TextRange +
  ref_fileName :: string

record SourceFile =
  fileName :: string
  referencedFiles :: "FileReference list"
  sf_imports :: "StringLiteralLike list"

text \<open>What the module-resolution cache holds for an import: the resolved file name, if
  resolution succeeded, and the ordered failed lookup locations.\<close>
record ResolvedModuleWithFailedLookupLocations =
  resolvedModule :: "string option"
  failedLookupLocations :: "string list"

text \<open>The members of the language service host the file uses; an optional member that
  the host does not define is \<open>None\<close> (for \<^verbatim>\<open>resolveModuleNames\<close> only its presence
  matters).\<close>
record LanguageServiceHost =
  useCaseSensitiveFileNames :: "bool option"
  resolveModuleNames :: bool
  host_getResolvedModuleWithFailedLookupLocationsFromCache ::
    "(string \<Rightarrow> string \<Rightarrow> ResolvedModuleWithFailedLookupLocations option) option"

text \<open>An element or initializer of the configuration file's JSON tree.\<close>
datatype Expression =
    StringLiteral StringLiteralLike
  | ArrayLiteralExpression "Expression list"
  | OtherExpression

text \<open>The configuration file: its name and the property assignments of its top-level
  object, each a name with its initializer.\<close>
record TsConfigSourceFile =
  config_fileName :: string
  config_properties :: "(string \<times> Expression) list"

record Program =
  getSourceFiles :: "SourceFile list"
  configFile :: "TsConfigSourceFile option"
  program_getResolvedModuleWithFailedLookupLocationsFromCache ::
    "string \<Rightarrow> string \<Rightarrow> ResolvedModuleWithFailedLookupLocations option"

text \<open>One recorded replacement: the file, the range and the new text. The change tracker
  is the list of replacements recorded so far.\<close>
record TextChange =
  change_file :: string
  change_range :: TextRange
  change_text :: string

type_synonym ChangeTracker = "TextChange list"

text \<open>Modelled from the spec: \<^verbatim>\<open>ChangeTracker.replaceRangeWithText\<close>, the spec's
  ChangeEmitter, a "sink accepting (filePath, range, replacementText)".\<close>
definition replaceRangeWithText :: "ChangeTracker \<Rightarrow> string \<Rightarrow> TextRange \<Rightarrow> string \<Rightarrow> ChangeTracker" where
  "replaceRangeWithText changeTracker file rng newText =
     changeTracker @ [\<lparr>change_file = file, change_range = rng, change_text = newText\<rparr>]"

text \<open>Modelled from the spec: \<^verbatim>\<open>hostUsesCaseSensitiveFileNames(host)\<close>, the host-supplied
  case-sensitivity flag; a host that does not say is taken as case-insensitive.\<close>
definition hostUsesCaseSensitiveFileNames :: "LanguageServiceHost \<Rightarrow> bool" where
  "hostUsesCaseSensitiveFileNames host =
     (case useCaseSensitiveFileNames host of None \<Rightarrow> False | Some b \<Rightarrow> b)"

text \<open>Modelled from the spec: \<^verbatim>\<open>getTsConfigPropArray(configFile, propKey)\<close>: the
  initializers of the top-level properties with the given name, the "declared file list"
  for \<^verbatim>\<open>files\<close>.\<close>
definition getTsConfigPropArray :: "TsConfigSourceFile \<Rightarrow> string \<Rightarrow> Expression list" where
  "getTsConfigPropArray cfg propKey =
     map snd (filter (\<lambda>p. fst p = propKey) (config_properties cfg))"

subsection \<open>The path updaters\<close>

text \<open>The functions of \<^verbatim>\<open>getEditsForFileRename.ts\<close> from \<^verbatim>\<open>getInternalPathUpdater\<close> to
  \<^verbatim>\<open>tryRemoveIndexOrPackage\<close>, under their own names. A condition on a
  \<^verbatim>\<open>string | undefined\<close> value is written with \<open>truthy\<close>.\<close>

definition combineNormal :: "string \<Rightarrow> string \<Rightarrow> string" where
  "combineNormal pathA pathB = normalizePath (combinePaths pathA pathB)"

definition removeDirectoryPrefixFromPath :: "string \<Rightarrow> string \<Rightarrow> string option" where
  "removeDirectoryPrefixFromPath directory path =
     (case tryRemovePrefix path directory of
        None \<Rightarrow> None
      | Some withoutDir \<Rightarrow> (if \<not> startsWith withoutDir ''/'' then None else Some withoutDir))"

definition combinePathsSafe :: "string \<Rightarrow> string \<Rightarrow> string" where
  "combinePathsSafe pathA pathB = ensurePathIsNonModuleName (combineNormal pathA pathB)"

definition endsWithSomeIndex :: "string \<Rightarrow> bool" where
  "endsWithSomeIndex path = endsWith (removeFileExtension path) ''index''"

definition indexEndings :: "string list" where
  "indexEndings =
     [''/package.json'', ''/index.js'', ''/index.jsx'', ''/index.ts'', ''/index.d.ts'', ''/index.tsx'']"

definition tryRemoveIndexOrPackage :: "string \<Rightarrow> string option" where
  "tryRemoveIndexOrPackage name = firstDefined indexEndings (\<lambda>e. tryRemoveSuffix name e)"

definition pathToImportPath :: "string \<Rightarrow> string" where
  "pathToImportPath name =
     (case tryRemoveIndexOrPackage name of
        Some withoutIndex \<Rightarrow> withoutIndex
      | None \<Rightarrow> removeFileExtension name)"

definition toDirectory :: "string \<Rightarrow> string" where
  "toDirectory path = (if isAnySupportedFileExtension path then getDirectoryPath path else path)"

definition getRelative :: "string \<Rightarrow> string \<Rightarrow> string" where
  "getRelative from to =
     ensurePathIsNonModuleName
       (getRelativePathFromDirectory (toDirectory from) (toDirectory to) (IgnoreCase False))"

definition importIsInternalToDirectory :: "string \<Rightarrow> string \<Rightarrow> string \<Rightarrow> bool" where
  "importIsInternalToDirectory oldDir sourceFilePath importText =
     truthy (removeDirectoryPrefixFromPath oldDir
               (combineNormal (getDirectoryPath sourceFilePath) importText))"

type_synonym InternalPathUpdater = "SourceFile \<Rightarrow> string \<Rightarrow> string option"

definition getInternalPathUpdater :: "string \<Rightarrow> string \<Rightarrow> InternalPathUpdater" where
  "getInternalPathUpdater oldFileOrDirPath newFileOrDirPath =
     (let relativeNewDirToOldDir = getRelative newFileOrDirPath oldFileOrDirPath in
      if relativeNewDirToOldDir = ''.'' then (\<lambda>sourceFile importText. None)
      else
        (let relativeOldDirToNewDir = getRelative oldFileOrDirPath newFileOrDirPath in
         (\<lambda>sourceFile importText.
            if \<not> pathIsRelative importText \<or>
               importIsInternalToDirectory oldFileOrDirPath (fileName sourceFile) importText \<or>
               importIsInternalToDirectory newFileOrDirPath (fileName sourceFile) importText
            then None
            else (case tryRemovePrefix importText (relativeOldDirToNewDir @ ''/'') of
                    Some short \<Rightarrow> Some (ensurePathIsNonModuleName short)
                  | None \<Rightarrow> Some (combineNormal relativeNewDirToOldDir importText)))))"

text \<open>The external updater either raises (the assertion on the suffix of the import text),
  or returns \<^verbatim>\<open>undefined\<close>, or returns the new text.\<close>
type_synonym ExternalPathUpdater = "string \<Rightarrow> string \<Rightarrow> bool \<Rightarrow> error + string option"

definition getExternalPathUpdater ::
  "string \<Rightarrow> string \<Rightarrow> LanguageServiceHost \<Rightarrow> ExternalPathUpdater" where
  "getExternalPathUpdater oldFileOrDirPath newFileOrDirPath host =
     (let rel = getRelativePathFromFile oldFileOrDirPath newFileOrDirPath
                  (createGetCanonicalFileName (hostUsesCaseSensitiveFileNames host)) in
      (\<lambda>fullPath importText isImport.
         if fullPath = oldFileOrDirPath then
           (let newImportText =
                  (if pathIsRelative importText
                   then combinePathsSafe
                          (if truthy (tryRemoveIndexOrPackage fullPath) \<and> \<not> endsWithSomeIndex importText
                           then importText else getDirectoryPath importText)
                          rel
                   else newFileOrDirPath)
            in Inr (Some (if isImport then pathToImportPath newImportText else newImportText)))
         else
           (case removeDirectoryPrefixFromPath oldFileOrDirPath fullPath of
              None \<Rightarrow> Inr None
            | Some relToOld \<Rightarrow>
                (let suffix = (if isImport then pathToImportPath relToOld else relToOld) in
                 if pathIsRelative importText
                 then (case tryRemoveSuffix importText suffix of
                         None \<Rightarrow> Inl AssertionFailure
                       | Some withoutSuffix \<Rightarrow>
                           Inr (Some (combinePathsSafe (getDirectoryPath withoutSuffix) rel @ suffix)))
                 else Inr (Some (newFileOrDirPath @ suffix))))))"

subsection \<open>Walking the configuration file and the source files\<close>

definition createStringRange :: "StringLiteralLike \<Rightarrow> TextRange" where
  "createStringRange node = \<lparr>pos = getStart node + 1, end_pos = node_end node - 1\<rparr>"

text \<open>The inner loop of \<^verbatim>\<open>updateTsconfigFiles\<close>, over the elements of one array.\<close>
fun updateTsconfigElements ::
  "TsConfigSourceFile \<Rightarrow> ExternalPathUpdater \<Rightarrow> ChangeTracker \<Rightarrow> Expression list \<Rightarrow> error + ChangeTracker" where
  "updateTsconfigElements cfg pathUpdater changeTracker [] = Inr changeTracker"
| "updateTsconfigElements cfg pathUpdater changeTracker (element # rest) =
     (case element of
        StringLiteral lit \<Rightarrow>
          (case pathUpdater (node_text lit) (node_text lit) False of
             Inl e \<Rightarrow> Inl e
           | Inr updated \<Rightarrow>
               updateTsconfigElements cfg pathUpdater
                 (case updated of
                    Some u \<Rightarrow> replaceRangeWithText changeTracker (config_fileName cfg) (createStringRange lit) u
                  | None \<Rightarrow> changeTracker)
                 rest)
      | _ \<Rightarrow> updateTsconfigElements cfg pathUpdater changeTracker rest)"

text \<open>The outer loop of \<^verbatim>\<open>updateTsconfigFiles\<close>, over the initializers of the
  \<^verbatim>\<open>files\<close> properties.\<close>
fun updateTsconfigProperties ::
  "TsConfigSourceFile \<Rightarrow> ExternalPathUpdater \<Rightarrow> ChangeTracker \<Rightarrow> Expression list \<Rightarrow> error + ChangeTracker" where
  "updateTsconfigProperties cfg pathUpdater changeTracker [] = Inr changeTracker"
| "updateTsconfigProperties cfg pathUpdater changeTracker (initializer # rest) =
     (case initializer of
        ArrayLiteralExpression elements \<Rightarrow>
          (case updateTsconfigElements cfg pathUpdater changeTracker elements of
             Inl e \<Rightarrow> Inl e
           | Inr changeTracker' \<Rightarrow> updateTsconfigProperties cfg pathUpdater changeTracker' rest)
      | _ \<Rightarrow> updateTsconfigProperties cfg pathUpdater changeTracker rest)"

definition updateTsconfigFiles :: "Program \<Rightarrow> ChangeTracker \<Rightarrow> ExternalPathUpdater \<Rightarrow> error + ChangeTracker" where
  "updateTsconfigFiles program changeTracker pathUpdater =
     (case configFile program of
        None \<Rightarrow> Inr changeTracker
      | Some cfg \<Rightarrow>
          updateTsconfigProperties cfg pathUpdater changeTracker (getTsConfigPropArray cfg ''files''))"

text \<open>The first loop of \<^verbatim>\<open>updateImportsWorker\<close>, over the reference directives; the
  directive itself is the range replaced.\<close>
fun updateReferencedFiles ::
  "SourceFile \<Rightarrow> (string \<Rightarrow> error + string option) \<Rightarrow> ChangeTracker \<Rightarrow> FileReference list \<Rightarrow> error + ChangeTracker" where
  "updateReferencedFiles sourceFile updateRef changeTracker [] = Inr changeTracker"
| "updateReferencedFiles sourceFile updateRef changeTracker (ref # rest) =
     (case updateRef (ref_fileName ref) of
        Inl e \<Rightarrow> Inl e
      | Inr updated \<Rightarrow>
          updateReferencedFiles sourceFile updateRef
            (case updated of
               Some u \<Rightarrow> replaceRangeWithText changeTracker (fileName sourceFile)
                           \<lparr>pos = pos ref, end_pos = end_pos ref\<rparr> u
             | None \<Rightarrow> changeTracker)
            rest)"

text \<open>The second loop of \<^verbatim>\<open>updateImportsWorker\<close>, over the import string literals.\<close>
fun updateImportLiterals ::
  "SourceFile \<Rightarrow> (string \<Rightarrow> error + string option) \<Rightarrow> ChangeTracker \<Rightarrow> StringLiteralLike list \<Rightarrow> error + ChangeTracker" where
  "updateImportLiterals sourceFile updateImport changeTracker [] = Inr changeTracker"
| "updateImportLiterals sourceFile updateImport changeTracker (importStringLiteral # rest) =
     (case updateImport (node_text importStringLiteral) of
        Inl e \<Rightarrow> Inl e
      | Inr updated \<Rightarrow>
          updateImportLiterals sourceFile updateImport
            (case updated of
               Some u \<Rightarrow> replaceRangeWithText changeTracker (fileName sourceFile)
                           (createStringRange importStringLiteral) u
             | None \<Rightarrow> changeTracker)
            rest)"

definition updateImportsWorker ::
  "SourceFile \<Rightarrow> ChangeTracker \<Rightarrow> (string \<Rightarrow> error + string option) \<Rightarrow> (string \<Rightarrow> error + string option)
     \<Rightarrow> error + ChangeTracker" where
  "updateImportsWorker sourceFile changeTracker updateRef updateImport =
     (case updateReferencedFiles sourceFile updateRef changeTracker (referencedFiles sourceFile) of
        Inl e \<Rightarrow> Inl e
      | Inr changeTracker' \<Rightarrow>
          updateImportLiterals sourceFile updateImport changeTracker' (sf_imports sourceFile))"

text \<open>\<^verbatim>\<open>firstDefined\<close> with a callback that may raise: the exception ends the search.\<close>
fun firstDefinedThrowing :: "'a list \<Rightarrow> ('a \<Rightarrow> error + 'b option) \<Rightarrow> error + 'b option" where
  "firstDefinedThrowing [] f = Inr None"
| "firstDefinedThrowing (x # xs) f =
     (case f x of
        Inl e \<Rightarrow> Inl e
      | Inr (Some r) \<Rightarrow> Inr (Some r)
      | Inr None \<Rightarrow> firstDefinedThrowing xs f)"

text \<open>The membership test of \<^verbatim>\<open>updateImports\<close>: the file is the old or the new path, or
  lies inside one of them.\<close>
definition isMovedFile :: "string \<Rightarrow> string \<Rightarrow> SourceFile \<Rightarrow> bool" where
  "isMovedFile oldFileOrDirPath newFileOrDirPath sourceFile =
     (fileName sourceFile = oldFileOrDirPath \<or>
      truthy (removeDirectoryPrefixFromPath oldFileOrDirPath (fileName sourceFile)) \<or>
      fileName sourceFile = newFileOrDirPath \<or>
      truthy (removeDirectoryPrefixFromPath newFileOrDirPath (fileName sourceFile)))"

text \<open>The constant \<^verbatim>\<open>resolved\<close> of the callback \<^verbatim>\<open>updateImports\<close> passes for the imports
  of a file that is not moved: the cached resolution of the import, from the host when it
  resolves module names itself (nothing when it has no cache to ask) and from the program
  otherwise.\<close>
definition resolvedFromCache ::
  "Program \<Rightarrow> LanguageServiceHost \<Rightarrow> string \<Rightarrow> string \<Rightarrow> ResolvedModuleWithFailedLookupLocations option" where
  "resolvedFromCache program host importText containingFile =
     (if resolveModuleNames host
      then (case host_getResolvedModuleWithFailedLookupLocationsFromCache host of
              None \<Rightarrow> None
            | Some fromCache \<Rightarrow> fromCache importText containingFile)
      else program_getResolvedModuleWithFailedLookupLocationsFromCache program
             importText containingFile)"

text \<open>The callback itself: the resolved file name alone when resolution succeeded, the
  failed lookup locations otherwise, and the first of these paths that the external
  updater rewrites.\<close>
definition updateExternalImport ::
  "Program \<Rightarrow> LanguageServiceHost \<Rightarrow> ExternalPathUpdater \<Rightarrow> SourceFile \<Rightarrow> string \<Rightarrow> error + string option" where
  "updateExternalImport program host externalPathUpdater sourceFile importText =
     (case resolvedFromCache program host importText (fileName sourceFile) of
        None \<Rightarrow> Inr None
      | Some resolved \<Rightarrow>
          firstDefinedThrowing
            (case resolvedModule resolved of
               Some resolvedFileName \<Rightarrow> [resolvedFileName]
             | None \<Rightarrow> failedLookupLocations resolved)
            (\<lambda>path. externalPathUpdater path importText True))"

text \<open>The body of the loop of \<^verbatim>\<open>updateImports\<close>, for one source file.\<close>
definition updateImportsOfFile ::
  "Program \<Rightarrow> ChangeTracker \<Rightarrow> ExternalPathUpdater \<Rightarrow> InternalPathUpdater \<Rightarrow> string \<Rightarrow> string
     \<Rightarrow> LanguageServiceHost \<Rightarrow> SourceFile \<Rightarrow> error + ChangeTracker" where
  "updateImportsOfFile program changeTracker externalPathUpdater internalPathUpdater
       oldFileOrDirPath newFileOrDirPath host sourceFile =
     (if isMovedFile oldFileOrDirPath newFileOrDirPath sourceFile
      then updateImportsWorker sourceFile changeTracker
             (\<lambda>referenceText. Inr (internalPathUpdater sourceFile referenceText))
             (\<lambda>importText. Inr (internalPathUpdater sourceFile importText))
      else updateImportsWorker sourceFile changeTracker
             (\<lambda>referenceText.
                externalPathUpdater (resolveTripleslashReference referenceText (fileName sourceFile))
                  referenceText False)
             (updateExternalImport program host externalPathUpdater sourceFile))"

fun updateImportsLoop ::
  "Program \<Rightarrow> ChangeTracker \<Rightarrow> ExternalPathUpdater \<Rightarrow> InternalPathUpdater \<Rightarrow> string \<Rightarrow> string
     \<Rightarrow> LanguageServiceHost \<Rightarrow> SourceFile list \<Rightarrow> error + ChangeTracker" where
  "updateImportsLoop program changeTracker externalPathUpdater internalPathUpdater old new host [] = Inr changeTracker"
| "updateImportsLoop program changeTracker externalPathUpdater internalPathUpdater old new host (sourceFile # rest) =
     (case updateImportsOfFile program changeTracker externalPathUpdater internalPathUpdater old new host sourceFile of
        Inl e \<Rightarrow> Inl e
      | Inr changeTracker' \<Rightarrow> updateImportsLoop program changeTracker' externalPathUpdater internalPathUpdater old new host rest)"

definition updateImports ::
  "Program \<Rightarrow> ChangeTracker \<Rightarrow> ExternalPathUpdater \<Rightarrow> InternalPathUpdater \<Rightarrow> string \<Rightarrow> string
     \<Rightarrow> LanguageServiceHost \<Rightarrow> error + ChangeTracker" where
  "updateImports program changeTracker externalPathUpdater internalPathUpdater
       oldFileOrDirPath newFileOrDirPath host =
     updateImportsLoop program changeTracker externalPathUpdater internalPathUpdater
       oldFileOrDirPath newFileOrDirPath host (getSourceFiles program)"

text \<open>The entry point. The result is the list of replacements the change tracker recorded,
  in the order recorded.\<close>
definition getEditsForFileRename ::
  "Program \<Rightarrow> string \<Rightarrow> string \<Rightarrow> LanguageServiceHost \<Rightarrow> error + TextChange list" where
  "getEditsForFileRename program oldFileOrDirPath newFileOrDirPath host =
     (let externalPathUpdater = getExternalPathUpdater oldFileOrDirPath newFileOrDirPath host;
          internalPathUpdater = getInternalPathUpdater oldFileOrDirPath newFileOrDirPath
      in case updateTsconfigFiles program [] externalPathUpdater of
           Inl e \<Rightarrow> Inl e
         | Inr changeTracker \<Rightarrow>
             updateImports program changeTracker externalPathUpdater internalPathUpdater
               oldFileOrDirPath newFileOrDirPath host)"

subsection \<open>Notions used to state the properties\<close>

text \<open>The string-literal elements of an array, in order.\<close>
fun stringLiteralsOf :: "Expression list \<Rightarrow> StringLiteralLike list" where
  "stringLiteralsOf [] = []"
| "stringLiteralsOf (StringLiteral lit # rest) = lit # stringLiteralsOf rest"
| "stringLiteralsOf (ArrayLiteralExpression es # rest) = stringLiteralsOf rest"
| "stringLiteralsOf (OtherExpression # rest) = stringLiteralsOf rest"

text \<open>The string entries of the declared file list: the string-literal elements of those
  initializers that are array literals, in order.\<close>
fun declaredFileEntries :: "Expression list \<Rightarrow> StringLiteralLike list" where
  "declaredFileEntries [] = []"
| "declaredFileEntries (ArrayLiteralExpression es # rest) = stringLiteralsOf es @ declaredFileEntries rest"
| "declaredFileEntries (StringLiteral lit # rest) = declaredFileEntries rest"
| "declaredFileEntries (OtherExpression # rest) = declaredFileEntries rest"

definition configFileEntries :: "Program \<Rightarrow> StringLiteralLike list" where
  "configFileEntries program =
     (case configFile program of
        None \<Rightarrow> []
      | Some cfg \<Rightarrow> declaredFileEntries (getTsConfigPropArray cfg ''files''))"

text \<open>A recorded change replaces the inside of a string literal: it is in the given file,
  its range runs from just after the literal's opening quote to just before its closing
  quote, and its text is what the update function gives for the literal's text.\<close>
definition replacesInside ::
  "string \<Rightarrow> (string \<Rightarrow> error + string option) \<Rightarrow> TextChange \<Rightarrow> StringLiteralLike \<Rightarrow> bool" where
  "replacesInside file update c lit =
     (change_file c = file \<and>
      change_range c = \<lparr>pos = getStart lit + 1, end_pos = node_end lit - 1\<rparr> \<and>
      update (node_text lit) = Inr (Some (change_text c)))"

text \<open>A recorded change rewrites an entry of the configuration's file list: it replaces the
  inside of the literal in the configuration file and, for an entry that is not relative,
  its text is the new path when the entry is the old path and the new path followed by the
  entry's suffix when the entry lies inside the old path.\<close>
definition rewritesConfigEntry :: "string \<Rightarrow> string \<Rightarrow> string \<Rightarrow> TextChange \<Rightarrow> StringLiteralLike \<Rightarrow> bool" where
  "rewritesConfigEntry file oldPath newPath c lit =
     (change_file c = file \<and>
      change_range c = createStringRange lit \<and>
      (\<not> pathIsRelative (node_text lit) \<longrightarrow>
         (node_text lit = oldPath \<longrightarrow> change_text c = newPath) \<and>
         (\<forall>suffix. removeDirectoryPrefixFromPath oldPath (node_text lit) = Some suffix
                    \<longrightarrow> change_text c = newPath @ suffix)))"





text \<open>The internal path updater as the spec words it (section 4.2): the prefix is
  stripped only when a non-empty remainder is left.\<close>
definition internalPathUpdaterSpec :: "string \<Rightarrow> string \<Rightarrow> SourceFile \<Rightarrow> string \<Rightarrow> string option" where
  "internalPathUpdaterSpec oldPath newPath sourceFile importText =
     (let deltaNewToOld = getRelative newPath oldPath;
          deltaOldToNew = getRelative oldPath newPath
      in if deltaNewToOld = ''.'' then None
         else if \<not> pathIsRelative importText \<or>
                 importIsInternalToDirectory oldPath (fileName sourceFile) importText \<or>
                 importIsInternalToDirectory newPath (fileName sourceFile) importText
         then None
         else (case tryRemovePrefix importText (deltaOldToNew @ ''/'') of
                 Some remainder \<Rightarrow>
                   (if remainder \<noteq> [] then Some (ensurePathIsNonModuleName remainder)
                    else Some (combineNormal deltaNewToOld importText))
               | None \<Rightarrow> Some (combineNormal deltaNewToOld importText)))"

text \<open>The external path updater on a path equal to the old path, as the spec words it
  (section 4.3): for relative text the relative path is appended to the text itself when
  the text has no explicit index-like suffix, and to its directory when it has one.\<close>
definition externalUpdaterAtOldSpec :: "string \<Rightarrow> string \<Rightarrow> LanguageServiceHost \<Rightarrow> string \<Rightarrow> bool \<Rightarrow> string" where
  "externalUpdaterAtOldSpec oldPath newPath host originalImportText isModuleSpecifier =
     (let rel = getRelativePathFromFile oldPath newPath
                  (createGetCanonicalFileName (hostUsesCaseSensitiveFileNames host));
          newText = (if pathIsRelative originalImportText
                     then combinePathsSafe
                            (if \<not> endsWithSomeIndex originalImportText then originalImportText
                             else getDirectoryPath originalImportText)
                            rel
                     else newPath)
      in if isModuleSpecifier then pathToImportPath newText else newText)"

subsection \<open>Example inputs\<close>

text \<open>A small project: \<^verbatim>\<open>/p/a.ts\<close> imports \<^verbatim>\<open>./old\<close>, which resolves to
  \<^verbatim>\<open>/p/old.ts\<close>; the configuration file lists \<^verbatim>\<open>/p/old.ts\<close> among its files.\<close>
definition caseSensitiveHost :: LanguageServiceHost where
  "caseSensitiveHost =
     \<lparr>useCaseSensitiveFileNames = Some True, resolveModuleNames = False,
      host_getResolvedModuleWithFailedLookupLocationsFromCache = None\<rparr>"

definition importOfOld :: StringLiteralLike where
  "importOfOld = \<lparr>getStart = 19, node_end = 26, node_text = ''./old''\<rparr>"

definition fileA :: SourceFile where
  "fileA = \<lparr>fileName = ''/p/a.ts'', referencedFiles = [], sf_imports = [importOfOld]\<rparr>"

definition entryOfOld :: StringLiteralLike where
  "entryOfOld = \<lparr>getStart = 14, node_end = 25, node_text = ''/p/old.ts''\<rparr>"

definition exampleConfig :: TsConfigSourceFile where
  "exampleConfig =
     \<lparr>config_fileName = ''/p/tsconfig.json'',
      config_properties =
        [(''files'', ArrayLiteralExpression [StringLiteral entryOfOld, OtherExpression]),
         (''include'', ArrayLiteralExpression [StringLiteral entryOfOld]),
         (''files'', StringLiteral entryOfOld)]\<rparr>"

definition exampleCache :: "string \<Rightarrow> string \<Rightarrow> ResolvedModuleWithFailedLookupLocations option" where
  "exampleCache importText containingFile =
     (if importText = ''./old'' \<and> containingFile = ''/p/a.ts''
      then Some \<lparr>resolvedModule = Some ''/p/old.ts'', failedLookupLocations = []\<rparr>
      else None)"

definition exampleProgram :: Program where
  "exampleProgram =
     \<lparr>getSourceFiles = [fileA], configFile = Some exampleConfig,
      program_getResolvedModuleWithFailedLookupLocationsFromCache = exampleCache\<rparr>"

text \<open>The same project when the import no longer resolves: the cache holds the failed
  lookup locations; and a host that resolves module names itself but has no cache.\<close>
definition failedLookupCache :: "string \<Rightarrow> string \<Rightarrow> ResolvedModuleWithFailedLookupLocations option" where
  "failedLookupCache importText containingFile =
     (if importText = ''./old'' \<and> containingFile = ''/p/a.ts''
      then Some \<lparr>resolvedModule = None,
                 failedLookupLocations = [''/p/old.ts'', ''/p/old.tsx'', ''/p/old.d.ts'']\<rparr>
      else None)"

definition unresolvedProgram :: Program where
  "unresolvedProgram =
     \<lparr>getSourceFiles = [fileA], configFile = None,
      program_getResolvedModuleWithFailedLookupLocationsFromCache = failedLookupCache\<rparr>"

definition hostWithoutCache :: LanguageServiceHost where
  "hostWithoutCache =
     \<lparr>useCaseSensitiveFileNames = Some True, resolveModuleNames = True,
      host_getResolvedModuleWithFailedLookupLocationsFromCache = None\<rparr>"

text \<open>A configuration whose file list names a file inside the directory \<^verbatim>\<open>/p/dir\<close>.\<close>
definition directoryEntry :: StringLiteralLike where
  "directoryEntry = \<lparr>getStart = 14, node_end = 27, node_text = ''/p/dir/a.ts''\<rparr>"

definition directoryConfig :: TsConfigSourceFile where
  "directoryConfig =
     \<lparr>config_fileName = ''/p/tsconfig.json'',
      config_properties =
        [(''files'', ArrayLiteralExpression
                      [StringLiteral directoryEntry, OtherExpression, ArrayLiteralExpression []])]\<rparr>"

definition directoryProgram :: Program where
  "directoryProgram =
     \<lparr>getSourceFiles = [], configFile = Some directoryConfig,
      program_getResolvedModuleWithFailedLookupLocationsFromCache = (\<lambda>importText containingFile. None)\<rparr>"

text \<open>The directory \<^verbatim>\<open>/p/dir\<close> moved to \<^verbatim>\<open>/p/sub/dir\<close>: a file reported at its new
  location, and a file reported at its old location that imports \<^verbatim>\<open>../outside\<close>.\<close>
definition fileAtNewLocation :: SourceFile where
  "fileAtNewLocation = \<lparr>fileName = ''/p/sub/dir/x.ts'', referencedFiles = [], sf_imports = []\<rparr>"

definition innerFile :: SourceFile where
  "innerFile =
     \<lparr>fileName = ''/p/dir/inner.ts'', referencedFiles = [],
      sf_imports = [\<lparr>getStart = 19, node_end = 31, node_text = ''../outside''\<rparr>]\<rparr>"







text \<open>A host whose file names are case-insensitive, and the file \<^verbatim>\<open>/P/old.ts\<close>.\<close>
definition caseInsensitiveHost :: LanguageServiceHost where
  "caseInsensitiveHost =
     \<lparr>useCaseSensitiveFileNames = Some False, resolveModuleNames = False,
      host_getResolvedModuleWithFailedLookupLocationsFromCache = None\<rparr>"

definition upperCaseOldFile :: SourceFile where
  "upperCaseOldFile = \<lparr>fileName = ''/P/old.ts'', referencedFiles = [], sf_imports = []\<rparr>"

text \<open>The directory \<^verbatim>\<open>/p/old\<close> renamed to \<^verbatim>\<open>/p/new\<close>, with \<^verbatim>\<open>/p/a.ts\<close> importing
  \<^verbatim>\<open>./old/x/index\<close>, which no longer resolves: the cache holds the locations the resolver
  tried, in its order.\<close>
definition importOfIndex :: StringLiteralLike where
  "importOfIndex = \<lparr>getStart = 19, node_end = 34, node_text = ''./old/x/index''\<rparr>"

definition indexImporter :: SourceFile where
  "indexImporter = \<lparr>fileName = ''/p/a.ts'', referencedFiles = [], sf_imports = [importOfIndex]\<rparr>"

definition indexLookupCache :: "string \<Rightarrow> string \<Rightarrow> ResolvedModuleWithFailedLookupLocations option" where
  "indexLookupCache importText containingFile =
     (if importText = ''./old/x/index'' \<and> containingFile = ''/p/a.ts''
      then Some \<lparr>resolvedModule = None,
                 failedLookupLocations =
                   [''/p/old/x/index.ts'', ''/p/old/x/index.tsx'', ''/p/old/x/index.d.ts'',
                    ''/p/old/x/index/package.json'', ''/p/old/x/index/index.ts'',
                    ''/p/old/x/index/index.tsx'', ''/p/old/x/index/index.d.ts'']\<rparr>
      else None)"

definition indexProgram :: Program where
  "indexProgram =
     \<lparr>getSourceFiles = [indexImporter], configFile = None,
      program_getResolvedModuleWithFailedLookupLocationsFromCache = indexLookupCache\<rparr>"

section \<open>Properties\<close>

subsection \<open>Prefixes and suffixes\<close>

lemma startsWith_iff: "startsWith str pre \<longleftrightarrow> (\<exists>rest. str = pre @ rest)"
proof
  assume "startsWith str pre"
  then have "str = pre @ drop (length pre) str"
    unfolding startsWith_def by (metis append_take_drop_id)
  then show "\<exists>rest. str = pre @ rest" ..
next
  assume "\<exists>rest. str = pre @ rest"
  then show "startsWith str pre" unfolding startsWith_def by auto
qed

lemma endsWith_iff: "endsWith str suf \<longleftrightarrow> (\<exists>front. str = front @ suf)"
proof
  assume "endsWith str suf"
  then have "str = take (length str - length suf) str @ suf"
    unfolding endsWith_def by (metis append_take_drop_id)
  then show "\<exists>front. str = front @ suf" ..
next
  assume "\<exists>front. str = front @ suf"
  then show "endsWith str suf" unfolding endsWith_def by auto
qed

lemma tryRemovePrefix_Some: "tryRemovePrefix str pre = Some rest \<longleftrightarrow> str = pre @ rest"
  unfolding tryRemovePrefix_def startsWith_iff by auto

lemma tryRemovePrefix_None: "tryRemovePrefix str pre = None \<longleftrightarrow> \<not> (\<exists>rest. str = pre @ rest)"
  unfolding tryRemovePrefix_def startsWith_iff by auto

lemma tryRemoveSuffix_Some: "tryRemoveSuffix str suf = Some front \<longleftrightarrow> str = front @ suf"
  unfolding tryRemoveSuffix_def endsWith_iff by auto

lemma tryRemoveSuffix_None: "tryRemoveSuffix str suf = None \<longleftrightarrow> \<not> (\<exists>front. str = front @ suf)"
  unfolding tryRemoveSuffix_def endsWith_iff by auto

lemma removeDirectoryPrefixFromPath_Some:
  "removeDirectoryPrefixFromPath directory path = Some s \<longleftrightarrow>
     path = directory @ s \<and> (\<exists>rest. s = CHR ''/'' # rest)"
  unfolding removeDirectoryPrefixFromPath_def
  by (auto simp: tryRemovePrefix_Some tryRemovePrefix_None startsWith_iff split: option.splits)

subsection \<open>Removing a directory prefix\<close>

text \<open>
  Claim C6. \<^verbatim>\<open>removeDirectoryPrefixFromPath(directory, path)\<close> returns a suffix \<open>s\<close>
  exactly when the path is the directory followed by \<open>s\<close> and \<open>s\<close> begins at a separator,
  that is when the path lies strictly inside the directory at a separator boundary; it
  returns no match exactly when the path is not the directory followed by a separator and
  a rest. A sibling whose name merely begins with the directory's name is no match:
  \<^verbatim>\<open>/project/foobar/x\<close> is not inside \<^verbatim>\<open>/project/foo\<close>.
\<close>
theorem removeDirectoryPrefixFromPath_strictly_inside:
  "(removeDirectoryPrefixFromPath directory path = Some s \<longleftrightarrow>
      path = directory @ s \<and> (\<exists>rest. s = CHR ''/'' # rest)) \<and>
   (removeDirectoryPrefixFromPath directory path = None \<longleftrightarrow>
      \<not> (\<exists>rest. path = directory @ CHR ''/'' # rest)) \<and>
   removeDirectoryPrefixFromPath ''/project/foo'' ''/project/foobar/x'' = None"
proof (intro conjI)
  show "removeDirectoryPrefixFromPath directory path = Some s \<longleftrightarrow>
      path = directory @ s \<and> (\<exists>rest. s = CHR ''/'' # rest)"
    by (rule removeDirectoryPrefixFromPath_Some)
  show "removeDirectoryPrefixFromPath directory path = None \<longleftrightarrow>
      \<not> (\<exists>rest. path = directory @ CHR ''/'' # rest)"
  proof -
    have "removeDirectoryPrefixFromPath directory path \<noteq> None \<longleftrightarrow>
            (\<exists>s. removeDirectoryPrefixFromPath directory path = Some s)" by auto
    also have "\<dots> \<longleftrightarrow> (\<exists>rest. path = directory @ CHR ''/'' # rest)"
      unfolding removeDirectoryPrefixFromPath_Some by auto
    finally show ?thesis by blast
  qed
  show "removeDirectoryPrefixFromPath ''/project/foo'' ''/project/foobar/x'' = None"
    by (simp add: removeDirectoryPrefixFromPath_def tryRemovePrefix_def startsWith_def)
qed

theorem removeDirectoryPrefixFromPath_strictly_inside_witness:
  "removeDirectoryPrefixFromPath ''/project/foo'' ''/project/foo/bar/x'' = Some ''/bar/x''"
  using removeDirectoryPrefixFromPath_strictly_inside
          [of "''/project/foo''" "''/project/foo/bar/x''" "''/bar/x''"]
  by simp

subsection \<open>Module-specifier form\<close>

lemma endsWith_append:
  "endsWith (a @ b) s \<longleftrightarrow>
     (if length s \<le> length b then endsWith b s
      else endsWith a (take (length s - length b) s) \<and> drop (length s - length b) s = b)"
proof (cases "length s \<le> length b")
  case True
  then show ?thesis by (simp add: endsWith_def)
next
  case False
  have "(\<exists>front. a @ b = front @ s) \<longleftrightarrow>
        (\<exists>front. a = front @ take (length s - length b) s) \<and> drop (length s - length b) s = b"
  proof
    assume "\<exists>front. a @ b = front @ s"
    then obtain front where eq: "a @ b = front @ s" ..
    have "s = take (length s - length b) s @ drop (length s - length b) s" by simp
    with eq have "a @ b = (front @ take (length s - length b) s) @ drop (length s - length b) s"
      by simp
    moreover have "length b = length (drop (length s - length b) s)" using False by simp
    ultimately have "a = front @ take (length s - length b) s \<and> b = drop (length s - length b) s"
      by (metis append_eq_append_conv)
    then show "(\<exists>front. a = front @ take (length s - length b) s) \<and> drop (length s - length b) s = b"
      by auto
  next
    assume "(\<exists>front. a = front @ take (length s - length b) s) \<and> drop (length s - length b) s = b"
    then obtain front where "a = front @ take (length s - length b) s"
      and "drop (length s - length b) s = b" by auto
    then have "a @ b = front @ s" by (metis append.assoc append_take_drop_id)
    then show "\<exists>front. a @ b = front @ s" ..
  qed
  with False show ?thesis by (simp add: endsWith_iff)
qed



lemma endsWith_append_cases:
  assumes "endsWith (a @ b) s"
  shows "endsWith b s \<or> endsWith s b"
proof (cases "length s \<le> length b")
  case True
  with assms show ?thesis by (simp add: endsWith_append)
next
  case False
  with assms have "drop (length s - length b) s = b" by (simp add: endsWith_append)
  then have "endsWith s b" using False by (simp add: endsWith_def)
  then show ?thesis ..
qed

lemma firstDefined_unique:
  "x \<in> set xs \<Longrightarrow> f x = Some r \<Longrightarrow> (\<And>y. y \<in> set xs \<Longrightarrow> y \<noteq> x \<Longrightarrow> f y = None)
     \<Longrightarrow> firstDefined xs f = Some r"
proof (induction xs)
  case Nil
  then show ?case by simp
next
  case (Cons a xs)
  show ?case
  proof (cases "a = x")
    case True
    with Cons.prems(2) show ?thesis by simp
  next
    case False
    with Cons.prems have "f a = None" and "x \<in> set xs" by auto
    moreover have "firstDefined xs f = Some r"
      using Cons.IH [OF \<open>x \<in> set xs\<close> Cons.prems(2)] Cons.prems(3) by simp
    ultimately show ?thesis by simp
  qed
qed

lemma indexEndings_pairwise:
  "list_all (\<lambda>e. list_all (\<lambda>e'. \<not> endsWith e e' \<or> e = e') indexEndings) indexEndings"
  by code_simp

lemma indexEndings_no_suffix:
  "e \<in> set indexEndings \<Longrightarrow> e' \<in> set indexEndings \<Longrightarrow> endsWith e e' \<Longrightarrow> e = e'"
  using indexEndings_pairwise unfolding list_all_iff by blast

lemma tryRemoveIndexOrPackage_ending:
  assumes "e \<in> set indexEndings"
  shows "tryRemoveIndexOrPackage (stem @ e) = Some stem"
  unfolding tryRemoveIndexOrPackage_def
proof (rule firstDefined_unique [OF assms])
  show "tryRemoveSuffix (stem @ e) e = Some stem" by (simp add: tryRemoveSuffix_Some)
next
  fix y assume y: "y \<in> set indexEndings" "y \<noteq> e"
  have "\<not> endsWith (stem @ e) y"
  proof
    assume "endsWith (stem @ e) y"
    then have "endsWith e y \<or> endsWith y e" by (rule endsWith_append_cases)
    with indexEndings_no_suffix [OF assms y(1)] indexEndings_no_suffix [OF y(1) assms] y(2)
    show False by auto
  qed
  then show "tryRemoveSuffix (stem @ e) y = None" by (simp add: tryRemoveSuffix_def)
qed

lemma firstDefined_None: "firstDefined xs f = None \<longleftrightarrow> (\<forall>x \<in> set xs. f x = None)"
  by (induction xs) (auto split: option.splits)

lemma tryRemoveIndexOrPackage_None:
  "tryRemoveIndexOrPackage name = None \<longleftrightarrow> (\<forall>e \<in> set indexEndings. \<not> endsWith name e)"
  unfolding tryRemoveIndexOrPackage_def firstDefined_None tryRemoveSuffix_def by auto

lemma getExternalPathUpdater_at_old:
  "getExternalPathUpdater old new host old importText isImport =
     (let newImportText =
            (if pathIsRelative importText
             then combinePathsSafe
                    (if truthy (tryRemoveIndexOrPackage old) \<and> \<not> endsWithSomeIndex importText
                     then importText else getDirectoryPath importText)
                    (getRelativePathFromFile old new
                       (createGetCanonicalFileName (hostUsesCaseSensitiveFileNames host)))
             else new)
      in Inr (Some (if isImport then pathToImportPath newImportText else newImportText)))"
  by (simp add: getExternalPathUpdater_def Let_def)

lemma endsWith_suffix_of_suffix: "endsWith name (a @ b) \<Longrightarrow> endsWith name b"
  unfolding endsWith_iff by (metis append.assoc)

lemma removeFileExtension_dts: "stem \<noteq> [] \<Longrightarrow> removeFileExtension (stem @ ''.d.ts'') = stem"
  by (simp add: removeFileExtension_def extensionsToRemove_def fileExtensionIs_def endsWith_append)
     (simp add: endsWith_def)

lemma removeFileExtension_ts:
  "stem \<noteq> [] \<Longrightarrow> \<not> endsWith stem ''.d'' \<Longrightarrow> removeFileExtension (stem @ ''.ts'') = stem"
  by (simp add: removeFileExtension_def extensionsToRemove_def fileExtensionIs_def endsWith_append)
     (simp add: endsWith_def)

lemma removeFileExtension_js: "stem \<noteq> [] \<Longrightarrow> removeFileExtension (stem @ ''.js'') = stem"
  by (simp add: removeFileExtension_def extensionsToRemove_def fileExtensionIs_def endsWith_append)
     (simp add: endsWith_def)

lemma removeFileExtension_tsx: "stem \<noteq> [] \<Longrightarrow> removeFileExtension (stem @ ''.tsx'') = stem"
  by (simp add: removeFileExtension_def extensionsToRemove_def fileExtensionIs_def endsWith_append)
     (simp add: endsWith_def)

lemma removeFileExtension_jsx: "stem \<noteq> [] \<Longrightarrow> removeFileExtension (stem @ ''.jsx'') = stem"
  by (simp add: removeFileExtension_def extensionsToRemove_def fileExtensionIs_def endsWith_append)
     (simp add: endsWith_def)

lemma no_index_ending_dts:
  "\<not> endsWith stem ''/index'' \<Longrightarrow> tryRemoveIndexOrPackage (stem @ ''.d.ts'') = None"
  by (simp add: tryRemoveIndexOrPackage_None indexEndings_def endsWith_append)

lemma no_index_ending_ts:
  "\<not> endsWith stem ''/index'' \<Longrightarrow> \<not> endsWith stem ''.d'' \<Longrightarrow>
     tryRemoveIndexOrPackage (stem @ ''.ts'') = None"
proof -
  assume a: "\<not> endsWith stem ''/index''" and b: "\<not> endsWith stem ''.d''"
  from b have "\<not> endsWith stem (''/index'' @ ''.d'')" using endsWith_suffix_of_suffix by blast
  with a show ?thesis
    by (simp add: tryRemoveIndexOrPackage_None indexEndings_def endsWith_append)
qed

lemma no_index_ending_js:
  "\<not> endsWith stem ''/index'' \<Longrightarrow> tryRemoveIndexOrPackage (stem @ ''.js'') = None"
  by (simp add: tryRemoveIndexOrPackage_None indexEndings_def endsWith_append)

lemma no_index_ending_tsx:
  "\<not> endsWith stem ''/index'' \<Longrightarrow> tryRemoveIndexOrPackage (stem @ ''.tsx'') = None"
  by (simp add: tryRemoveIndexOrPackage_None indexEndings_def endsWith_append)

lemma no_index_ending_jsx:
  "\<not> endsWith stem ''/index'' \<Longrightarrow> tryRemoveIndexOrPackage (stem @ ''.jsx'') = None"
  by (simp add: tryRemoveIndexOrPackage_None indexEndings_def endsWith_append)

lemma pathToImportPath_plain:
  assumes "\<not> endsWith name ''/package.json''" "\<not> endsWith name ''.ts''"
    "\<not> endsWith name ''.js''" "\<not> endsWith name ''.tsx''" "\<not> endsWith name ''.jsx''"
  shows "pathToImportPath name = name"
proof -
  have e: "\<not> endsWith name ''/index.js''" "\<not> endsWith name ''/index.jsx''"
     "\<not> endsWith name ''/index.ts''" "\<not> endsWith name ''/index.d.ts''"
     "\<not> endsWith name ''/index.tsx''" "\<not> endsWith name ''.d.ts''"
    using assms endsWith_suffix_of_suffix [of name "''/index''" "''.js''"]
      endsWith_suffix_of_suffix [of name "''/index''" "''.jsx''"]
      endsWith_suffix_of_suffix [of name "''/index''" "''.ts''"]
      endsWith_suffix_of_suffix [of name "''/index.d''" "''.ts''"]
      endsWith_suffix_of_suffix [of name "''/index''" "''.tsx''"]
      endsWith_suffix_of_suffix [of name "''.d''" "''.ts''"]
    by auto
  with assms(1) have "tryRemoveIndexOrPackage name = None"
    by (simp add: tryRemoveIndexOrPackage_None indexEndings_def)
  moreover from assms e have "removeFileExtension name = name"
    by (simp add: removeFileExtension_def extensionsToRemove_def fileExtensionIs_def)
  ultimately show ?thesis by (simp add: pathToImportPath_def)
qed

text \<open>
  Claim C5. \<^verbatim>\<open>pathToImportPath\<close> removes exactly one trailing \<^verbatim>\<open>/package.json\<close>,
  \<^verbatim>\<open>/index.js\<close>, \<^verbatim>\<open>/index.jsx\<close>, \<^verbatim>\<open>/index.ts\<close>, \<^verbatim>\<open>/index.d.ts\<close> or \<^verbatim>\<open>/index.tsx\<close>: a stem
  followed by any one of the six endings gives back the stem, whatever the stem ends with.
  Otherwise it removes one recognized file extension: a non-empty base that does not end
  in \<^verbatim>\<open>/index\<close>, followed by \<^verbatim>\<open>.js\<close>, \<^verbatim>\<open>.jsx\<close>, \<^verbatim>\<open>.d.ts\<close> or \<^verbatim>\<open>.tsx\<close>, gives back the base,
  and so does the base followed by \<^verbatim>\<open>.ts\<close> when the base does not end in \<^verbatim>\<open>.d\<close> (where
  \<^verbatim>\<open>.d.ts\<close> is the extension). A name with none of the endings and none of the extensions
  is returned as it is. Both \<^verbatim>\<open>/a/b/index.ts\<close> and \<^verbatim>\<open>/a/b/package.json\<close> become \<^verbatim>\<open>/a/b\<close>. A
  reference that is not an import is not put through this conversion: for a path resolving
  to the old path the external updater returns the raw new text for a reference, and the
  converted form of that same text for an import; for text that is not relative the raw
  text is the new path.
\<close>
theorem pathToImportPath_strips_one:
  "pathToImportPath (stem @ ''/package.json'') = stem \<and>
   pathToImportPath (stem @ ''/index.js'') = stem \<and>
   pathToImportPath (stem @ ''/index.jsx'') = stem \<and>
   pathToImportPath (stem @ ''/index.ts'') = stem \<and>
   pathToImportPath (stem @ ''/index.d.ts'') = stem \<and>
   pathToImportPath (stem @ ''/index.tsx'') = stem \<and>
   (base \<noteq> [] \<and> \<not> endsWith base ''/index'' \<longrightarrow>
      pathToImportPath (base @ ''.js'') = base \<and>
      pathToImportPath (base @ ''.jsx'') = base \<and>
      pathToImportPath (base @ ''.d.ts'') = base \<and>
      pathToImportPath (base @ ''.tsx'') = base \<and>
      (\<not> endsWith base ''.d'' \<longrightarrow> pathToImportPath (base @ ''.ts'') = base)) \<and>
   (\<not> endsWith name ''/package.json'' \<and> \<not> endsWith name ''.js'' \<and> \<not> endsWith name ''.jsx'' \<and>
    \<not> endsWith name ''.ts'' \<and> \<not> endsWith name ''.tsx'' \<longrightarrow> pathToImportPath name = name) \<and>
   pathToImportPath ''/a/b/index.ts'' = ''/a/b'' \<and>
   pathToImportPath ''/a/b/package.json'' = ''/a/b'' \<and>
   (\<exists>raw. getExternalPathUpdater old new host old importText False = Inr (Some raw) \<and>
          getExternalPathUpdater old new host old importText True = Inr (Some (pathToImportPath raw)) \<and>
          (\<not> pathIsRelative importText \<longrightarrow> raw = new))"
proof -
  have ending: "\<And>e. e \<in> set indexEndings \<Longrightarrow> pathToImportPath (stem @ e) = stem"
    by (simp add: pathToImportPath_def tryRemoveIndexOrPackage_ending)
  have 1: "pathToImportPath (stem @ ''/package.json'') = stem"
    by (rule ending) (simp add: indexEndings_def)
  have 2: "pathToImportPath (stem @ ''/index.js'') = stem"
    by (rule ending) (simp add: indexEndings_def)
  have 3: "pathToImportPath (stem @ ''/index.jsx'') = stem"
    by (rule ending) (simp add: indexEndings_def)
  have 4: "pathToImportPath (stem @ ''/index.ts'') = stem"
    by (rule ending) (simp add: indexEndings_def)
  have 5: "pathToImportPath (stem @ ''/index.d.ts'') = stem"
    by (rule ending) (simp add: indexEndings_def)
  have 6: "pathToImportPath (stem @ ''/index.tsx'') = stem"
    by (rule ending) (simp add: indexEndings_def)
  have 7: "base \<noteq> [] \<and> \<not> endsWith base ''/index'' \<longrightarrow>
      pathToImportPath (base @ ''.js'') = base \<and>
      pathToImportPath (base @ ''.jsx'') = base \<and>
      pathToImportPath (base @ ''.d.ts'') = base \<and>
      pathToImportPath (base @ ''.tsx'') = base \<and>
      (\<not> endsWith base ''.d'' \<longrightarrow> pathToImportPath (base @ ''.ts'') = base)"
    by (simp add: pathToImportPath_def
          no_index_ending_js no_index_ending_jsx no_index_ending_dts no_index_ending_tsx
          no_index_ending_ts removeFileExtension_js removeFileExtension_jsx
          removeFileExtension_dts removeFileExtension_tsx removeFileExtension_ts)
  have 8: "\<not> endsWith name ''/package.json'' \<and> \<not> endsWith name ''.js'' \<and> \<not> endsWith name ''.jsx'' \<and>
    \<not> endsWith name ''.ts'' \<and> \<not> endsWith name ''.tsx'' \<longrightarrow> pathToImportPath name = name"
    using pathToImportPath_plain by blast
  have 9: "pathToImportPath ''/a/b/index.ts'' = ''/a/b''" by code_simp
  have 10: "pathToImportPath ''/a/b/package.json'' = ''/a/b''" by code_simp
  have 11: "\<exists>raw. getExternalPathUpdater old new host old importText False = Inr (Some raw) \<and>
          getExternalPathUpdater old new host old importText True = Inr (Some (pathToImportPath raw)) \<and>
          (\<not> pathIsRelative importText \<longrightarrow> raw = new)"
    by (simp add: getExternalPathUpdater_at_old Let_def)
  from 1 2 3 4 5 6 7 8 9 10 11 show ?thesis by (intro conjI)
qed

theorem pathToImportPath_strips_one_witness:
  "pathToImportPath ''/a/index.ts/index.d.ts'' = ''/a/index.ts'' \<and>
   pathToImportPath ''/a/b/c.ts'' = ''/a/b/c'' \<and>
   pathToImportPath ''/a/b/c.js'' = ''/a/b/c'' \<and>
   pathToImportPath ''/a/b/c.json'' = ''/a/b/c.json'' \<and>
   getExternalPathUpdater ''/p/old.ts'' ''/a/b/index.ts'' caseSensitiveHost
       ''/p/old.ts'' ''/p/old.ts'' False = Inr (Some ''/a/b/index.ts'')"
proof -
  have b: "''/a/b/c'' \<noteq> [] \<and> \<not> endsWith ''/a/b/c'' ''/index''" by code_simp
  have d: "\<not> endsWith ''/a/b/c'' ''.d''" by code_simp
  have n: "\<not> endsWith ''/a/b/c.json'' ''/package.json'' \<and> \<not> endsWith ''/a/b/c.json'' ''.js'' \<and>
           \<not> endsWith ''/a/b/c.json'' ''.jsx'' \<and> \<not> endsWith ''/a/b/c.json'' ''.ts'' \<and>
           \<not> endsWith ''/a/b/c.json'' ''.tsx''" by code_simp
  have abs: "\<not> pathIsRelative ''/p/old.ts''" by code_simp
  note inst = pathToImportPath_strips_one [of "''/a/index.ts''" "''/a/b/c''" "''/a/b/c.json''" "''/p/old.ts''"
                     "''/a/b/index.ts''" caseSensitiveHost "''/p/old.ts''"]
  from inst have "pathToImportPath (''/a/index.ts'' @ ''/index.d.ts'') = ''/a/index.ts''" by blast
  then have 1: "pathToImportPath ''/a/index.ts/index.d.ts'' = ''/a/index.ts''" by simp
  from inst b d have "pathToImportPath (''/a/b/c'' @ ''.ts'') = ''/a/b/c'' \<and>
                      pathToImportPath (''/a/b/c'' @ ''.js'') = ''/a/b/c''" by blast
  then have 2: "pathToImportPath ''/a/b/c.ts'' = ''/a/b/c''"
    and 3: "pathToImportPath ''/a/b/c.js'' = ''/a/b/c''" by simp_all
  from inst n have 4: "pathToImportPath ''/a/b/c.json'' = ''/a/b/c.json''" by blast
  from inst abs have 5: "getExternalPathUpdater ''/p/old.ts'' ''/a/b/index.ts'' caseSensitiveHost
       ''/p/old.ts'' ''/p/old.ts'' False = Inr (Some ''/a/b/index.ts'')" by auto
  from 1 2 3 4 5 show ?thesis by (intro conjI)
qed

subsection \<open>One change is recorded per rewritten literal\<close>

lemma updateImportLiterals_changes:
  "updateImportLiterals sf update ct lits = Inr ct' \<Longrightarrow>
     \<exists>new. ct' = ct @ new \<and>
           list_all2 (replacesInside (fileName sf) update) new
             (filter (\<lambda>lit. update (node_text lit) \<noteq> Inr None) lits)"
proof (induction lits arbitrary: ct)
  case Nil
  then show ?case by simp
next
  case (Cons lit lits)
  show ?case
  proof (cases "update (node_text lit)")
    case (Inl e)
    with Cons.prems show ?thesis by simp
  next
    case (Inr updated)
    show ?thesis
    proof (cases updated)
      case None
      with Inr Cons.prems have "updateImportLiterals sf update ct lits = Inr ct'" by simp
      from Cons.IH [OF this] Inr None show ?thesis by simp
    next
      case (Some u)
      let ?c = "\<lparr>change_file = fileName sf, change_range = createStringRange lit, change_text = u\<rparr>"
      from Inr Some Cons.prems
      have "updateImportLiterals sf update (ct @ [?c]) lits = Inr ct'"
        by (simp add: replaceRangeWithText_def)
      from Cons.IH [OF this] obtain new where
        new: "ct' = (ct @ [?c]) @ new"
             "list_all2 (replacesInside (fileName sf) update) new
                (filter (\<lambda>lit. update (node_text lit) \<noteq> Inr None) lits)"
        by blast
      have "replacesInside (fileName sf) update ?c lit"
        using Inr Some by (simp add: replacesInside_def createStringRange_def)
      with new Inr Some have "ct' = ct @ (?c # new) \<and>
           list_all2 (replacesInside (fileName sf) update) (?c # new)
             (filter (\<lambda>lit. update (node_text lit) \<noteq> Inr None) (lit # lits))"
        by simp
      then show ?thesis by blast
    qed
  qed
qed

lemma updateImportLiterals_append:
  "updateImportLiterals sf update ct (xs @ ys) =
     (case updateImportLiterals sf update ct xs of
        Inl e \<Rightarrow> Inl e
      | Inr ct' \<Rightarrow> updateImportLiterals sf update ct' ys)"
  by (induction xs arbitrary: ct) (auto split: sum.splits option.splits)

text \<open>Walking the configuration file does what the loop over import literals does,
  on the string entries.\<close>
lemma updateTsconfigElements_as_literals:
  "updateTsconfigElements cfg pathUpdater ct es =
     updateImportLiterals \<lparr>fileName = config_fileName cfg, referencedFiles = [], sf_imports = []\<rparr>
       (\<lambda>t. pathUpdater t t False) ct (stringLiteralsOf es)"
proof (induction es arbitrary: ct)
  case Nil
  then show ?case by simp
next
  case (Cons e es)
  then show ?case by (cases e) (auto split: sum.splits option.splits)
qed

lemma updateTsconfigProperties_as_literals:
  "updateTsconfigProperties cfg pathUpdater ct inits =
     updateImportLiterals \<lparr>fileName = config_fileName cfg, referencedFiles = [], sf_imports = []\<rparr>
       (\<lambda>t. pathUpdater t t False) ct (declaredFileEntries inits)"
proof (induction inits arbitrary: ct)
  case Nil
  then show ?case by simp
next
  case (Cons i inits)
  then show ?case
    by (cases i)
       (auto simp: updateImportLiterals_append updateTsconfigElements_as_literals split: sum.splits)
qed

lemma updateTsconfigFiles_changes:
  assumes "updateTsconfigFiles program ct pathUpdater = Inr ct'"
  shows "\<exists>new. ct' = ct @ new \<and>
           (case configFile program of
              None \<Rightarrow> new = []
            | Some cfg \<Rightarrow>
                list_all2 (replacesInside (config_fileName cfg) (\<lambda>t. pathUpdater t t False)) new
                  (filter (\<lambda>lit. pathUpdater (node_text lit) (node_text lit) False \<noteq> Inr None)
                     (configFileEntries program)))"
proof (cases "configFile program")
  case None
  with assms show ?thesis by (simp add: updateTsconfigFiles_def)
next
  case (Some cfg)
  with assms have "updateImportLiterals
       \<lparr>fileName = config_fileName cfg, referencedFiles = [], sf_imports = []\<rparr>
       (\<lambda>t. pathUpdater t t False) ct (configFileEntries program) = Inr ct'"
    by (simp add: updateTsconfigFiles_def updateTsconfigProperties_as_literals configFileEntries_def)
  from updateImportLiterals_changes [OF this] Some show ?thesis by simp
qed

lemma updateReferencedFiles_changes:
  "updateReferencedFiles sf update ct refs = Inr ct' \<Longrightarrow>
     \<exists>new. ct' = ct @ new \<and> length new \<le> length refs"
proof (induction refs arbitrary: ct)
  case Nil
  then show ?case by simp
next
  case (Cons r refs)
  show ?case
  proof (cases "update (ref_fileName r)")
    case (Inl e)
    with Cons.prems show ?thesis by simp
  next
    case (Inr updated)
    with Cons.prems obtain ct1 where
      ct1: "updateReferencedFiles sf update ct1 refs = Inr ct'"
           "ct1 = ct \<or> (\<exists>c. ct1 = ct @ [c])"
      by (cases updated) (auto simp: replaceRangeWithText_def)
    from Cons.IH [OF ct1(1)] obtain new where "ct' = ct1 @ new" "length new \<le> length refs"
      by blast
    with ct1(2) show ?thesis by auto
  qed
qed

text \<open>
  Claim C10. Every change recorded for an import string literal, and every change recorded
  for a string entry of the configuration's file list, has the range from the literal's
  start plus one to its end minus one (the characters between the quotes) and the text the
  update function returned: the changes \<^verbatim>\<open>updateImportsWorker\<close> adds after those for the
  reference directives correspond one to one, in order, to the import literals whose update
  is defined, and the changes \<^verbatim>\<open>updateTsconfigFiles\<close> adds correspond one to one, in order,
  to the string entries of the file list whose update is defined.
\<close>
theorem string_literal_changes_inside_quotes:
  "(updateImportsWorker sf ct updateRef updateImport = Inr ct' \<longrightarrow>
      (\<exists>refChanges importChanges.
         ct' = ct @ refChanges @ importChanges \<and>
         updateReferencedFiles sf updateRef ct (referencedFiles sf) = Inr (ct @ refChanges) \<and>
         list_all2 (replacesInside (fileName sf) updateImport) importChanges
           (filter (\<lambda>lit. updateImport (node_text lit) \<noteq> Inr None) (sf_imports sf)))) \<and>
   (updateTsconfigFiles program ct pathUpdater = Inr ct'' \<longrightarrow>
      (\<exists>new. ct'' = ct @ new \<and>
         (case configFile program of
            None \<Rightarrow> new = []
          | Some cfg \<Rightarrow>
              list_all2 (replacesInside (config_fileName cfg) (\<lambda>t. pathUpdater t t False)) new
                (filter (\<lambda>lit. pathUpdater (node_text lit) (node_text lit) False \<noteq> Inr None)
                   (configFileEntries program)))))"
proof (intro conjI impI)
  assume w: "updateImportsWorker sf ct updateRef updateImport = Inr ct'"
  then obtain ct1 where
    r: "updateReferencedFiles sf updateRef ct (referencedFiles sf) = Inr ct1" and
    i: "updateImportLiterals sf updateImport ct1 (sf_imports sf) = Inr ct'"
    by (auto simp: updateImportsWorker_def split: sum.splits)
  from updateReferencedFiles_changes [OF r] obtain refChanges where rc: "ct1 = ct @ refChanges"
    by blast
  from updateImportLiterals_changes [OF i] obtain importChanges where
    ic: "ct' = ct1 @ importChanges"
        "list_all2 (replacesInside (fileName sf) updateImport) importChanges
           (filter (\<lambda>lit. updateImport (node_text lit) \<noteq> Inr None) (sf_imports sf))"
    by blast
  from r rc ic show "\<exists>refChanges importChanges.
         ct' = ct @ refChanges @ importChanges \<and>
         updateReferencedFiles sf updateRef ct (referencedFiles sf) = Inr (ct @ refChanges) \<and>
         list_all2 (replacesInside (fileName sf) updateImport) importChanges
           (filter (\<lambda>lit. updateImport (node_text lit) \<noteq> Inr None) (sf_imports sf))"
    by auto
next
  assume "updateTsconfigFiles program ct pathUpdater = Inr ct''"
  then show "\<exists>new. ct'' = ct @ new \<and>
         (case configFile program of
            None \<Rightarrow> new = []
          | Some cfg \<Rightarrow>
              list_all2 (replacesInside (config_fileName cfg) (\<lambda>t. pathUpdater t t False)) new
                (filter (\<lambda>lit. pathUpdater (node_text lit) (node_text lit) False \<noteq> Inr None)
                   (configFileEntries program)))"
    by (rule updateTsconfigFiles_changes)
qed

theorem string_literal_changes_inside_quotes_witness:
  "updateImportsWorker fileA [] (\<lambda>t. Inr None)
     (\<lambda>t. getExternalPathUpdater ''/p/old.ts'' ''/p/new.ts'' caseSensitiveHost ''/p/old.ts'' t True)
     = Inr [\<lparr>change_file = ''/p/a.ts'', change_range = \<lparr>pos = 20, end_pos = 25\<rparr>,
             change_text = ''./new''\<rparr>] \<and>
   replacesInside ''/p/a.ts''
     (\<lambda>t. getExternalPathUpdater ''/p/old.ts'' ''/p/new.ts'' caseSensitiveHost ''/p/old.ts'' t True)
     \<lparr>change_file = ''/p/a.ts'', change_range = \<lparr>pos = 20, end_pos = 25\<rparr>, change_text = ''./new''\<rparr>
     importOfOld \<and>
   updateTsconfigFiles exampleProgram []
     (getExternalPathUpdater ''/p/old.ts'' ''/p/new.ts'' caseSensitiveHost)
     = Inr [\<lparr>change_file = ''/p/tsconfig.json'', change_range = \<lparr>pos = 15, end_pos = 24\<rparr>,
             change_text = ''/p/new.ts''\<rparr>] \<and>
   replacesInside ''/p/tsconfig.json''
     (\<lambda>t. getExternalPathUpdater ''/p/old.ts'' ''/p/new.ts'' caseSensitiveHost t t False)
     \<lparr>change_file = ''/p/tsconfig.json'', change_range = \<lparr>pos = 15, end_pos = 24\<rparr>,
      change_text = ''/p/new.ts''\<rparr>
     entryOfOld"
proof -
  let ?upd = "\<lambda>t. getExternalPathUpdater ''/p/old.ts'' ''/p/new.ts'' caseSensitiveHost ''/p/old.ts'' t True"
  let ?c = "\<lparr>change_file = ''/p/a.ts'', change_range = \<lparr>pos = 20, end_pos = 25\<rparr>,
             change_text = ''./new''\<rparr>"
  let ?ext = "getExternalPathUpdater ''/p/old.ts'' ''/p/new.ts'' caseSensitiveHost"
  let ?d = "\<lparr>change_file = ''/p/tsconfig.json'', change_range = \<lparr>pos = 15, end_pos = 24\<rparr>,
             change_text = ''/p/new.ts''\<rparr>"
  have run: "updateImportsWorker fileA [] (\<lambda>t. Inr None) ?upd = Inr [?c]" by code_simp
  have cfg: "updateTsconfigFiles exampleProgram [] ?ext = Inr [?d]" by code_simp
  have refs: "referencedFiles fileA = []" by (simp add: fileA_def)
  have lits: "filter (\<lambda>lit. ?upd (node_text lit) \<noteq> Inr None) (sf_imports fileA) = [importOfOld]"
    by code_simp
  have entries: "filter (\<lambda>lit. ?ext (node_text lit) (node_text lit) False \<noteq> Inr None)
                   (configFileEntries exampleProgram) = [entryOfOld]"
    by code_simp
  have name: "fileName fileA = ''/p/a.ts''" by (simp add: fileA_def)
  have conf: "configFile exampleProgram = Some exampleConfig" by (simp add: exampleProgram_def)
  have cname: "config_fileName exampleConfig = ''/p/tsconfig.json''" by (simp add: exampleConfig_def)
  from string_literal_changes_inside_quotes [of fileA "[]" "\<lambda>t. Inr None" ?upd "[?c]" exampleProgram ?ext "[?d]"] run cfg
  obtain refChanges importChanges new where
    a: "[?c] = [] @ refChanges @ importChanges"
       "updateReferencedFiles fileA (\<lambda>t. Inr None) [] (referencedFiles fileA) = Inr ([] @ refChanges)"
       "list_all2 (replacesInside (fileName fileA) ?upd) importChanges
           (filter (\<lambda>lit. ?upd (node_text lit) \<noteq> Inr None) (sf_imports fileA))"
    and b: "[?d] = [] @ new"
       "list_all2 (replacesInside (config_fileName exampleConfig) (\<lambda>t. ?ext t t False)) new
                (filter (\<lambda>lit. ?ext (node_text lit) (node_text lit) False \<noteq> Inr None)
                   (configFileEntries exampleProgram))"
    unfolding conf option.case by blast
  from a(2) refs have "refChanges = []" by simp
  with a(1) have "importChanges = [?c]" by simp
  with a(3) lits name have 1: "replacesInside ''/p/a.ts'' ?upd ?c importOfOld" by simp
  from b(1) have "new = [?d]" by simp
  with b(2) entries cname have 2: "replacesInside ''/p/tsconfig.json'' (\<lambda>t. ?ext t t False) ?d entryOfOld"
    by simp
  from run 1 cfg 2 show ?thesis by blast
qed

subsection \<open>Imports of files that are not moved\<close>

lemma firstDefinedThrowing_first:
  "(\<forall>p \<in> set before. f p = Inr None) \<Longrightarrow> f candidate = Inr (Some u) \<Longrightarrow>
     firstDefinedThrowing (before @ candidate # rest) f = Inr (Some u)"
  by (induction before) auto

lemma firstDefinedThrowing_none:
  "(\<forall>p \<in> set candidates. f p = Inr None) \<Longrightarrow> firstDefinedThrowing candidates f = Inr None"
  by (induction candidates) auto

lemma updateImportLiterals_single:
  "updateImportLiterals sf update ct [lit] =
     (case update (node_text lit) of
        Inl e \<Rightarrow> Inl e
      | Inr None \<Rightarrow> Inr ct
      | Inr (Some u) \<Rightarrow> Inr (replaceRangeWithText ct (fileName sf) (createStringRange lit) u))"
  by (simp split: sum.splits option.splits)

text \<open>
  As long as no candidate raises, the search does what \<^verbatim>\<open>firstDefined\<close> promises. For an
  import literal of a file that is not moved, when the cached resolution has no resolved
  module, the failed lookup locations are tried in order: if every location before some
  candidate yields no change and the candidate yields a replacement, that replacement is
  the result for the import, and exactly one change with it is recorded for the literal.
  When there is no cached resolution at all, or no resolved module and every failed lookup
  location (there may be none) yields no change, the result is no change and nothing is
  recorded for the import. This is the update \<^verbatim>\<open>updateImports\<close> applies to the imports of
  every file that does not pass the membership test.
\<close>
lemma first_defined_candidate_when_none_raises:
  "(resolvedFromCache program host (node_text lit) (fileName sf) = Some resolved \<and>
    resolvedModule resolved = None \<and>
    failedLookupLocations resolved = before @ candidate # rest \<and>
    (\<forall>p \<in> set before. externalPathUpdater p (node_text lit) True = Inr None) \<and>
    externalPathUpdater candidate (node_text lit) True = Inr (Some u)
    \<longrightarrow>
    updateExternalImport program host externalPathUpdater sf (node_text lit) = Inr (Some u) \<and>
    updateImportLiterals sf (updateExternalImport program host externalPathUpdater sf) ct [lit] =
      Inr (replaceRangeWithText ct (fileName sf) (createStringRange lit) u)) \<and>
   (resolvedFromCache program host (node_text lit) (fileName sf) = None \<or>
    resolvedFromCache program host (node_text lit) (fileName sf) = Some resolved \<and>
    resolvedModule resolved = None \<and>
    (\<forall>p \<in> set (failedLookupLocations resolved). externalPathUpdater p (node_text lit) True = Inr None)
    \<longrightarrow>
    updateExternalImport program host externalPathUpdater sf (node_text lit) = Inr None \<and>
    updateImportLiterals sf (updateExternalImport program host externalPathUpdater sf) ct [lit] = Inr ct) \<and>
   (\<not> isMovedFile old new sf \<longrightarrow>
      updateImportsOfFile program ct externalPathUpdater internalPathUpdater old new host sf =
        updateImportsWorker sf ct
          (\<lambda>referenceText.
             externalPathUpdater (resolveTripleslashReference referenceText (fileName sf))
               referenceText False)
          (updateExternalImport program host externalPathUpdater sf))"
proof (intro conjI impI)
  assume h: "resolvedFromCache program host (node_text lit) (fileName sf) = Some resolved \<and>
    resolvedModule resolved = None \<and>
    failedLookupLocations resolved = before @ candidate # rest \<and>
    (\<forall>p \<in> set before. externalPathUpdater p (node_text lit) True = Inr None) \<and>
    externalPathUpdater candidate (node_text lit) True = Inr (Some u)"
  then have "firstDefinedThrowing (failedLookupLocations resolved)
               (\<lambda>path. externalPathUpdater path (node_text lit) True) = Inr (Some u)"
    by (simp add: firstDefinedThrowing_first)
  with h show r: "updateExternalImport program host externalPathUpdater sf (node_text lit) = Inr (Some u)"
    by (simp add: updateExternalImport_def)
  show "updateImportLiterals sf (updateExternalImport program host externalPathUpdater sf) ct [lit] =
      Inr (replaceRangeWithText ct (fileName sf) (createStringRange lit) u)"
    unfolding updateImportLiterals_single r by simp
next
  assume h: "resolvedFromCache program host (node_text lit) (fileName sf) = None \<or>
    resolvedFromCache program host (node_text lit) (fileName sf) = Some resolved \<and>
    resolvedModule resolved = None \<and>
    (\<forall>p \<in> set (failedLookupLocations resolved). externalPathUpdater p (node_text lit) True = Inr None)"
  then show r: "updateExternalImport program host externalPathUpdater sf (node_text lit) = Inr None"
  proof
    assume "resolvedFromCache program host (node_text lit) (fileName sf) = None"
    then show ?thesis by (simp add: updateExternalImport_def)
  next
    assume a: "resolvedFromCache program host (node_text lit) (fileName sf) = Some resolved \<and>
      resolvedModule resolved = None \<and>
      (\<forall>p \<in> set (failedLookupLocations resolved). externalPathUpdater p (node_text lit) True = Inr None)"
    then have "firstDefinedThrowing (failedLookupLocations resolved)
               (\<lambda>path. externalPathUpdater path (node_text lit) True) = Inr None"
      by (simp add: firstDefinedThrowing_none)
    with a show ?thesis by (simp add: updateExternalImport_def)
  qed
  show "updateImportLiterals sf (updateExternalImport program host externalPathUpdater sf) ct [lit] = Inr ct"
    unfolding updateImportLiterals_single r by simp
next
  assume "\<not> isMovedFile old new sf"
  then show "updateImportsOfFile program ct externalPathUpdater internalPathUpdater old new host sf =
        updateImportsWorker sf ct
          (\<lambda>referenceText.
             externalPathUpdater (resolveTripleslashReference referenceText (fileName sf))
               referenceText False)
          (updateExternalImport program host externalPathUpdater sf)"
    by (simp add: updateImportsOfFile_def)
qed

lemma first_defined_candidate_example:
  "updateExternalImport unresolvedProgram caseSensitiveHost
      (getExternalPathUpdater ''/p/old.tsx'' ''/p/new.tsx'' caseSensitiveHost) fileA ''./old''
     = Inr (Some ''./new'') \<and>
   updateImportLiterals fileA
      (updateExternalImport unresolvedProgram caseSensitiveHost
         (getExternalPathUpdater ''/p/old.tsx'' ''/p/new.tsx'' caseSensitiveHost) fileA)
      [] [importOfOld]
     = Inr [\<lparr>change_file = ''/p/a.ts'', change_range = \<lparr>pos = 20, end_pos = 25\<rparr>,
             change_text = ''./new''\<rparr>] \<and>
   updateImportLiterals fileA
      (updateExternalImport unresolvedProgram hostWithoutCache
         (getExternalPathUpdater ''/p/old.tsx'' ''/p/new.tsx'' hostWithoutCache) fileA)
      [] [importOfOld]
     = Inr [] \<and>
   updateImportsOfFile unresolvedProgram []
      (getExternalPathUpdater ''/p/old.tsx'' ''/p/new.tsx'' caseSensitiveHost)
      (getInternalPathUpdater ''/p/old.tsx'' ''/p/new.tsx'') ''/p/old.tsx'' ''/p/new.tsx''
      caseSensitiveHost fileA
     = Inr [\<lparr>change_file = ''/p/a.ts'', change_range = \<lparr>pos = 20, end_pos = 25\<rparr>,
             change_text = ''./new''\<rparr>]"
proof -
  let ?ext = "getExternalPathUpdater ''/p/old.tsx'' ''/p/new.tsx'' caseSensitiveHost"
  let ?ext' = "getExternalPathUpdater ''/p/old.tsx'' ''/p/new.tsx'' hostWithoutCache"
  let ?r = "\<lparr>resolvedModule = None,
            failedLookupLocations = [''/p/old.ts'', ''/p/old.tsx'', ''/p/old.d.ts'']\<rparr>"
  have lit_text: "node_text importOfOld = ''./old''" by (simp add: importOfOld_def)
  have res: "resolvedFromCache unresolvedProgram caseSensitiveHost (node_text importOfOld) (fileName fileA)
               = Some ?r" by code_simp
  have locs: "failedLookupLocations ?r = [''/p/old.ts''] @ ''/p/old.tsx'' # [''/p/old.d.ts'']"
    by simp
  have before: "\<forall>p \<in> set [''/p/old.ts'']. ?ext p (node_text importOfOld) True = Inr None"
    by code_simp
  have cand: "?ext ''/p/old.tsx'' (node_text importOfOld) True = Inr (Some ''./new'')"
    by code_simp
  have nores: "resolvedFromCache unresolvedProgram hostWithoutCache (node_text importOfOld) (fileName fileA)
               = None" by code_simp
  have rng: "replaceRangeWithText [] (fileName fileA) (createStringRange importOfOld) ''./new''
        = [\<lparr>change_file = ''/p/a.ts'', change_range = \<lparr>pos = 20, end_pos = 25\<rparr>,
             change_text = ''./new''\<rparr>]" by code_simp
  from first_defined_candidate_when_none_raises [of unresolvedProgram caseSensitiveHost importOfOld fileA ?r "[''/p/old.ts'']"
              "''/p/old.tsx''" "[''/p/old.d.ts'']" ?ext "''./new''" "[]"]
       res locs before cand
  have 1: "updateExternalImport unresolvedProgram caseSensitiveHost ?ext fileA (node_text importOfOld)
             = Inr (Some ''./new'')"
    and 2: "updateImportLiterals fileA (updateExternalImport unresolvedProgram caseSensitiveHost ?ext fileA)
              [] [importOfOld]
            = Inr (replaceRangeWithText [] (fileName fileA) (createStringRange importOfOld) ''./new'')"
    by simp_all
  from first_defined_candidate_when_none_raises [of unresolvedProgram hostWithoutCache importOfOld fileA ?r "[]" "''''" "[]" ?ext' "''''" "[]"]
       nores
  have 3: "updateImportLiterals fileA (updateExternalImport unresolvedProgram hostWithoutCache ?ext' fileA)
              [] [importOfOld] = Inr []"
    by simp
  have notMoved: "\<not> isMovedFile ''/p/old.tsx'' ''/p/new.tsx'' fileA" by code_simp
  have worker: "updateImportsWorker fileA []
          (\<lambda>referenceText. ?ext (resolveTripleslashReference referenceText (fileName fileA))
                             referenceText False)
          (updateExternalImport unresolvedProgram caseSensitiveHost ?ext fileA)
        = Inr [\<lparr>change_file = ''/p/a.ts'', change_range = \<lparr>pos = 20, end_pos = 25\<rparr>,
                change_text = ''./new''\<rparr>]" by code_simp
  from first_defined_candidate_when_none_raises
         [of unresolvedProgram caseSensitiveHost importOfOld fileA ?r "[]" "''''" "[]" ?ext "''''" "[]"
             "''/p/old.tsx''" "''/p/new.tsx''" "getInternalPathUpdater ''/p/old.tsx'' ''/p/new.tsx''"]
       notMoved
  have "updateImportsOfFile unresolvedProgram [] ?ext
          (getInternalPathUpdater ''/p/old.tsx'' ''/p/new.tsx'') ''/p/old.tsx'' ''/p/new.tsx''
          caseSensitiveHost fileA =
        updateImportsWorker fileA []
          (\<lambda>referenceText. ?ext (resolveTripleslashReference referenceText (fileName fileA))
                             referenceText False)
          (updateExternalImport unresolvedProgram caseSensitiveHost ?ext fileA)"
    by blast
  then have 4: "updateImportsOfFile unresolvedProgram [] ?ext
          (getInternalPathUpdater ''/p/old.tsx'' ''/p/new.tsx'') ''/p/old.tsx'' ''/p/new.tsx''
          caseSensitiveHost fileA
        = Inr [\<lparr>change_file = ''/p/a.ts'', change_range = \<lparr>pos = 20, end_pos = 25\<rparr>,
                change_text = ''./new''\<rparr>]"
    unfolding worker .
  from 1 2 3 4 show ?thesis unfolding rng lit_text by simp
qed

text \<open>
  Claim C7 says that, when resolution fails, the first failed lookup location for which the
  external updater yields a replacement is used. The code does not get that far when an
  earlier location makes the updater raise. With \<^verbatim>\<open>/p/old\<close> renamed to \<^verbatim>\<open>/p/new\<close> and the
  import \<^verbatim>\<open>./old/x/index\<close> of \<^verbatim>\<open>/p/a.ts\<close> unresolved, the first three locations are
  \<^verbatim>\<open>/p/old/x/index.ts\<close>, \<^verbatim>\<open>/p/old/x/index.tsx\<close> and \<^verbatim>\<open>/p/old/x/index.d.ts\<close>; each lies inside
  the old path with the module-specifier suffix \<^verbatim>\<open>/x\<close>, the import text does not end with
  it, and the assertion of the updater fails. The fourth location,
  \<^verbatim>\<open>/p/old/x/index/package.json\<close>, would give \<^verbatim>\<open>./new/x/index\<close>, but the exception of the
  first ends the search, the import's update and the whole computation.
\<close>
theorem failed_lookup_raises_before_defined_candidate:
  "resolvedFromCache indexProgram caseSensitiveHost ''./old/x/index'' ''/p/a.ts''
     = Some \<lparr>resolvedModule = None,
              failedLookupLocations =
                [''/p/old/x/index.ts'', ''/p/old/x/index.tsx'', ''/p/old/x/index.d.ts'',
                 ''/p/old/x/index/package.json'', ''/p/old/x/index/index.ts'',
                 ''/p/old/x/index/index.tsx'', ''/p/old/x/index/index.d.ts'']\<rparr> \<and>
   getExternalPathUpdater ''/p/old'' ''/p/new'' caseSensitiveHost
      ''/p/old/x/index.ts'' ''./old/x/index'' True = Inl AssertionFailure \<and>
   getExternalPathUpdater ''/p/old'' ''/p/new'' caseSensitiveHost
      ''/p/old/x/index.tsx'' ''./old/x/index'' True = Inl AssertionFailure \<and>
   getExternalPathUpdater ''/p/old'' ''/p/new'' caseSensitiveHost
      ''/p/old/x/index.d.ts'' ''./old/x/index'' True = Inl AssertionFailure \<and>
   getExternalPathUpdater ''/p/old'' ''/p/new'' caseSensitiveHost
      ''/p/old/x/index/package.json'' ''./old/x/index'' True = Inr (Some ''./new/x/index'') \<and>
   updateExternalImport indexProgram caseSensitiveHost
      (getExternalPathUpdater ''/p/old'' ''/p/new'' caseSensitiveHost) indexImporter ''./old/x/index''
     = Inl AssertionFailure \<and>
   getEditsForFileRename indexProgram ''/p/old'' ''/p/new'' caseSensitiveHost = Inl AssertionFailure"
  by code_simp

subsection \<open>The file list of the configuration\<close>

lemma getExternalPathUpdater_inside:
  assumes "fullPath \<noteq> old"
  shows "getExternalPathUpdater old new host fullPath importText isImport =
     (case removeDirectoryPrefixFromPath old fullPath of
        None \<Rightarrow> Inr None
      | Some relToOld \<Rightarrow>
          (let suffix = (if isImport then pathToImportPath relToOld else relToOld) in
           if pathIsRelative importText
           then (case tryRemoveSuffix importText suffix of
                   None \<Rightarrow> Inl AssertionFailure
                 | Some withoutSuffix \<Rightarrow>
                     Inr (Some (combinePathsSafe (getDirectoryPath withoutSuffix)
                                  (getRelativePathFromFile old new
                                     (createGetCanonicalFileName (hostUsesCaseSensitiveFileNames host)))
                                @ suffix)))
           else Inr (Some (new @ suffix))))"
  using assms by (simp add: getExternalPathUpdater_def Let_def)

lemma config_update_defined:
  "\<exists>r. getExternalPathUpdater old new host t t False = Inr r \<and>
       (r \<noteq> None \<longleftrightarrow> t = old \<or> removeDirectoryPrefixFromPath old t \<noteq> None)"
proof (cases "t = old")
  case True
  then show ?thesis by (simp add: getExternalPathUpdater_at_old Let_def)
next
  case False
  show ?thesis
  proof (cases "removeDirectoryPrefixFromPath old t")
    case None
    with False show ?thesis by (simp add: getExternalPathUpdater_inside)
  next
    case (Some relToOld)
    then have "t = old @ relToOld" by (simp add: removeDirectoryPrefixFromPath_Some)
    then have "tryRemoveSuffix t relToOld = Some old" by (simp add: tryRemoveSuffix_Some)
    with False Some show ?thesis by (simp add: getExternalPathUpdater_inside Let_def)
  qed
qed

lemma config_update_text:
  assumes "getExternalPathUpdater old new host t t False = Inr (Some u)" "\<not> pathIsRelative t"
  shows "(t = old \<longrightarrow> u = new) \<and>
         (\<forall>suffix. removeDirectoryPrefixFromPath old t = Some suffix \<longrightarrow> u = new @ suffix)"
proof (cases "t = old")
  case True
  then have "removeDirectoryPrefixFromPath old t = None"
    by (cases "removeDirectoryPrefixFromPath old t") (auto simp: removeDirectoryPrefixFromPath_Some)
  with True assms show ?thesis by (simp add: getExternalPathUpdater_at_old Let_def)
next
  case False
  with assms show ?thesis
    by (auto simp: getExternalPathUpdater_inside Let_def split: option.splits)
qed

lemma updateImportLiterals_total:
  "(\<And>t. \<exists>r. update t = Inr r) \<Longrightarrow> \<exists>ct'. updateImportLiterals sf update ct lits = Inr ct'"
proof (induction lits arbitrary: ct)
  case Nil
  then show ?case by simp
next
  case (Cons lit lits)
  from Cons.prems obtain r where r: "update (node_text lit) = Inr r" by blast
  from Cons.IH [OF Cons.prems] r show ?case by (cases r) auto
qed

lemma TextChange_fields:
  "change_file c = f \<Longrightarrow> change_range c = r \<Longrightarrow> change_text c = t \<Longrightarrow>
     c = \<lparr>change_file = f, change_range = r, change_text = t\<rparr>"
  by (cases c) simp

text \<open>
  Claim C8, as stated, fails: with the directory \<^verbatim>\<open>/p/dir\<close> renamed to \<^verbatim>\<open>/p/dir2\<close>, the
  entry \<^verbatim>\<open>/p/dir/a.ts\<close> of the file list is not the old path, yet it is rewritten, to
  \<^verbatim>\<open>/p/dir2/a.ts\<close>.
\<close>
theorem config_entry_inside_old_path_counterexample:
  "node_text directoryEntry \<noteq> ''/p/dir'' \<and>
   configFileEntries directoryProgram = [directoryEntry] \<and>
   updateTsconfigFiles directoryProgram []
      (getExternalPathUpdater ''/p/dir'' ''/p/dir2'' caseSensitiveHost)
     = Inr [\<lparr>change_file = ''/p/tsconfig.json'', change_range = \<lparr>pos = 15, end_pos = 26\<rparr>,
             change_text = ''/p/dir2/a.ts''\<rparr>]"
  by code_simp

text \<open>
  Claim C8, amended. \<^verbatim>\<open>updateTsconfigFiles\<close> with the external updater never raises. It
  records one change for each string entry of the declared file list that equals the old
  path or lies strictly inside it, in order, and none for any other entry; elements that are
  not string literals and initializers that are not arrays are passed over. Each change
  replaces the inside of its literal; for an entry that is not relative the new text is the
  new path when the entry equals the old path, and the new path followed by the entry's
  suffix beyond the old path when the entry lies inside it.
\<close>
theorem config_entries_at_or_inside_old_path:
  "\<exists>changes.
     updateTsconfigFiles program ct (getExternalPathUpdater old new host) = Inr (ct @ changes) \<and>
     (case configFile program of
        None \<Rightarrow> changes = []
      | Some cfg \<Rightarrow>
          list_all2 (rewritesConfigEntry (config_fileName cfg) old new) changes
            (filter (\<lambda>lit. node_text lit = old \<or>
                           removeDirectoryPrefixFromPath old (node_text lit) \<noteq> None)
               (configFileEntries program)))"
proof (cases "configFile program")
  case None
  then show ?thesis by (simp add: updateTsconfigFiles_def)
next
  case (Some cfg)
  let ?ext = "getExternalPathUpdater old new host"
  let ?upd = "\<lambda>t. ?ext t t False"
  let ?sf = "\<lparr>fileName = config_fileName cfg, referencedFiles = [], sf_imports = []\<rparr>"
  have run: "updateTsconfigFiles program ct ?ext =
               updateImportLiterals ?sf ?upd ct (configFileEntries program)"
    using Some
    by (simp add: updateTsconfigFiles_def updateTsconfigProperties_as_literals configFileEntries_def)
  have "\<And>t. \<exists>r. ?upd t = Inr r" using config_update_defined by blast
  from updateImportLiterals_total [of ?upd ?sf ct "configFileEntries program", OF this]
  obtain ct' where ct': "updateImportLiterals ?sf ?upd ct (configFileEntries program) = Inr ct'"
    by blast
  from updateImportLiterals_changes [OF ct'] obtain changes where
    ch: "ct' = ct @ changes"
        "list_all2 (replacesInside (config_fileName cfg) ?upd) changes
           (filter (\<lambda>lit. ?upd (node_text lit) \<noteq> Inr None) (configFileEntries program))"
    by auto
  have same: "(\<lambda>lit. ?upd (node_text lit) \<noteq> Inr None) =
              (\<lambda>lit. node_text lit = old \<or> removeDirectoryPrefixFromPath old (node_text lit) \<noteq> None)"
  proof
    fix lit
    from config_update_defined [of old new host "node_text lit"]
    show "(?upd (node_text lit) \<noteq> Inr None) =
          (node_text lit = old \<or> removeDirectoryPrefixFromPath old (node_text lit) \<noteq> None)"
      by auto
  qed
  have "\<And>c lit. replacesInside (config_fileName cfg) ?upd c lit \<Longrightarrow>
                 rewritesConfigEntry (config_fileName cfg) old new c lit"
  proof -
    fix c lit
    assume r: "replacesInside (config_fileName cfg) ?upd c lit"
    then have u: "?ext (node_text lit) (node_text lit) False = Inr (Some (change_text c))"
      by (simp add: replacesInside_def)
    from r have "change_file c = config_fileName cfg \<and> change_range c = createStringRange lit"
      by (simp add: replacesInside_def createStringRange_def)
    with config_update_text [OF u]
    show "rewritesConfigEntry (config_fileName cfg) old new c lit"
      unfolding rewritesConfigEntry_def by blast
  qed
  with ch(2) have "list_all2 (rewritesConfigEntry (config_fileName cfg) old new) changes
           (filter (\<lambda>lit. ?upd (node_text lit) \<noteq> Inr None) (configFileEntries program))"
    by (rule list_all2_mono)
  with run ct' ch(1) Some show ?thesis unfolding same by simp
qed

theorem config_entries_at_or_inside_old_path_witness:
  "updateTsconfigFiles exampleProgram []
      (getExternalPathUpdater ''/p/old.ts'' ''/p/new.ts'' caseSensitiveHost)
     = Inr [\<lparr>change_file = ''/p/tsconfig.json'', change_range = \<lparr>pos = 15, end_pos = 24\<rparr>,
             change_text = ''/p/new.ts''\<rparr>] \<and>
   updateTsconfigFiles directoryProgram []
      (getExternalPathUpdater ''/p/dir'' ''/p/dir2'' caseSensitiveHost)
     = Inr [\<lparr>change_file = ''/p/tsconfig.json'', change_range = \<lparr>pos = 15, end_pos = 26\<rparr>,
             change_text = ''/p/dir2/a.ts''\<rparr>]"
proof -
  have conf: "configFile exampleProgram = Some exampleConfig" by (simp add: exampleProgram_def)
  have cname: "config_fileName exampleConfig = ''/p/tsconfig.json''" by (simp add: exampleConfig_def)
  have entries: "filter (\<lambda>lit. node_text lit = ''/p/old.ts'' \<or>
                           removeDirectoryPrefixFromPath ''/p/old.ts'' (node_text lit) \<noteq> None)
                   (configFileEntries exampleProgram) = [entryOfOld]" by code_simp
  have abs: "\<not> pathIsRelative (node_text entryOfOld)" by code_simp
  have eq: "node_text entryOfOld = ''/p/old.ts''" by (simp add: entryOfOld_def)
  have rng: "createStringRange entryOfOld = \<lparr>pos = 15, end_pos = 24\<rparr>" by code_simp
  from config_entries_at_or_inside_old_path [of exampleProgram "[]" "''/p/old.ts''" "''/p/new.ts''" caseSensitiveHost]
  obtain changes where
    run: "updateTsconfigFiles exampleProgram []
            (getExternalPathUpdater ''/p/old.ts'' ''/p/new.ts'' caseSensitiveHost) = Inr ([] @ changes)"
    and all: "list_all2 (rewritesConfigEntry (config_fileName exampleConfig) ''/p/old.ts'' ''/p/new.ts'')
                changes [entryOfOld]"
    unfolding conf option.case entries by blast
  from all obtain c where c: "changes = [c]"
    "rewritesConfigEntry ''/p/tsconfig.json'' ''/p/old.ts'' ''/p/new.ts'' c entryOfOld"
    unfolding cname by (auto simp: list_all2_Cons2)
  from c(2) abs eq rng have "c = \<lparr>change_file = ''/p/tsconfig.json'',
       change_range = \<lparr>pos = 15, end_pos = 24\<rparr>, change_text = ''/p/new.ts''\<rparr>"
    unfolding rewritesConfigEntry_def by (intro TextChange_fields) simp_all
  with run c(1) have 1: "updateTsconfigFiles exampleProgram []
      (getExternalPathUpdater ''/p/old.ts'' ''/p/new.ts'' caseSensitiveHost)
     = Inr [\<lparr>change_file = ''/p/tsconfig.json'', change_range = \<lparr>pos = 15, end_pos = 24\<rparr>,
             change_text = ''/p/new.ts''\<rparr>]" by simp
  have conf': "configFile directoryProgram = Some directoryConfig" by (simp add: directoryProgram_def)
  have cname': "config_fileName directoryConfig = ''/p/tsconfig.json''"
    by (simp add: directoryConfig_def)
  have entries': "filter (\<lambda>lit. node_text lit = ''/p/dir'' \<or>
                           removeDirectoryPrefixFromPath ''/p/dir'' (node_text lit) \<noteq> None)
                   (configFileEntries directoryProgram) = [directoryEntry]" by code_simp
  have abs': "\<not> pathIsRelative (node_text directoryEntry)" by code_simp
  have inside: "removeDirectoryPrefixFromPath ''/p/dir'' (node_text directoryEntry) = Some ''/a.ts''"
    by code_simp
  have rng': "createStringRange directoryEntry = \<lparr>pos = 15, end_pos = 26\<rparr>" by code_simp
  from config_entries_at_or_inside_old_path [of directoryProgram "[]" "''/p/dir''" "''/p/dir2''" caseSensitiveHost]
  obtain changes' where
    run': "updateTsconfigFiles directoryProgram []
            (getExternalPathUpdater ''/p/dir'' ''/p/dir2'' caseSensitiveHost) = Inr ([] @ changes')"
    and all': "list_all2 (rewritesConfigEntry (config_fileName directoryConfig) ''/p/dir'' ''/p/dir2'')
                changes' [directoryEntry]"
    unfolding conf' option.case entries' by blast
  from all' obtain d where d: "changes' = [d]"
    "rewritesConfigEntry ''/p/tsconfig.json'' ''/p/dir'' ''/p/dir2'' d directoryEntry"
    unfolding cname' by (auto simp: list_all2_Cons2)
  from d(2) abs' inside rng' have "d = \<lparr>change_file = ''/p/tsconfig.json'',
       change_range = \<lparr>pos = 15, end_pos = 26\<rparr>, change_text = ''/p/dir2/a.ts''\<rparr>"
    unfolding rewritesConfigEntry_def by (intro TextChange_fields) simp_all
  with run' d(1) have 2: "updateTsconfigFiles directoryProgram []
      (getExternalPathUpdater ''/p/dir'' ''/p/dir2'' caseSensitiveHost)
     = Inr [\<lparr>change_file = ''/p/tsconfig.json'', change_range = \<lparr>pos = 15, end_pos = 26\<rparr>,
             change_text = ''/p/dir2/a.ts''\<rparr>]" by simp
  from 1 2 show ?thesis ..
qed

subsection \<open>The internal path updater\<close>

text \<open>
  Claim C1, as stated, fails where stripping the prefix leaves nothing. With \<^verbatim>\<open>/p/dir\<close>
  moved to \<^verbatim>\<open>/p/sub/dir\<close>, the delta from the old to the new directory is \<^verbatim>\<open>../sub/dir\<close>;
  for the import \<^verbatim>\<open>../sub/dir/\<close> in the moved file \<^verbatim>\<open>/p/sub/dir/x.ts\<close> the prefix is
  stripped with an empty remainder, and the updater returns the non-module form of the
  empty string, \<^verbatim>\<open>./\<close>, where the claim's case analysis gives the combined path.
\<close>
theorem internal_updater_empty_remainder_counterexample:
  "isMovedFile ''/p/dir'' ''/p/sub/dir'' fileAtNewLocation \<and>
   getRelative ''/p/dir'' ''/p/sub/dir'' @ ''/'' = ''../sub/dir/'' \<and>
   getInternalPathUpdater ''/p/dir'' ''/p/sub/dir'' fileAtNewLocation ''../sub/dir/'' = Some ''./'' \<and>
   internalPathUpdaterSpec ''/p/dir'' ''/p/sub/dir'' fileAtNewLocation ''../sub/dir/''
     = Some ''../../sub/dir/''"
  by code_simp

text \<open>
  Claim C1, amended. For every rename and every pair of source file and import text the
  internal path updater is this case analysis: no change when the delta from the new to
  the old directory is \<^verbatim>\<open>.\<close>; otherwise no change when the text is not relative, or is
  internal to the old path, or is internal to the new path; otherwise, when the text starts
  with the delta from old to new followed by a separator, the rest of the text (which may
  be empty) in non-module form; otherwise the delta from new to old combined with the text.
  It agrees with the case analysis as the spec words it on every import text other than
  that delta followed by a separator. A file that passes the membership test has all its
  reference directives and imports rewritten by this updater.
\<close>
theorem internal_updater_case_analysis:
  "getInternalPathUpdater old new sf importText =
     (if getRelative new old = ''.'' then None
      else if \<not> pathIsRelative importText \<or>
              importIsInternalToDirectory old (fileName sf) importText \<or>
              importIsInternalToDirectory new (fileName sf) importText
      then None
      else (case tryRemovePrefix importText (getRelative old new @ ''/'') of
              Some remainder \<Rightarrow> Some (ensurePathIsNonModuleName remainder)
            | None \<Rightarrow> Some (combineNormal (getRelative new old) importText))) \<and>
   (importText \<noteq> getRelative old new @ ''/'' \<longrightarrow>
      getInternalPathUpdater old new sf importText = internalPathUpdaterSpec old new sf importText) \<and>
   (isMovedFile old new sf \<longrightarrow>
      updateImportsOfFile program ct externalPathUpdater (getInternalPathUpdater old new) old new host sf =
        updateImportsWorker sf ct
          (\<lambda>referenceText. Inr (getInternalPathUpdater old new sf referenceText))
          (\<lambda>importText. Inr (getInternalPathUpdater old new sf importText)))"
proof (intro conjI impI)
  show "getInternalPathUpdater old new sf importText =
     (if getRelative new old = ''.'' then None
      else if \<not> pathIsRelative importText \<or>
              importIsInternalToDirectory old (fileName sf) importText \<or>
              importIsInternalToDirectory new (fileName sf) importText
      then None
      else (case tryRemovePrefix importText (getRelative old new @ ''/'') of
              Some remainder \<Rightarrow> Some (ensurePathIsNonModuleName remainder)
            | None \<Rightarrow> Some (combineNormal (getRelative new old) importText)))"
    by (simp add: getInternalPathUpdater_def Let_def)
next
  assume ne: "importText \<noteq> getRelative old new @ ''/''"
  have "\<And>remainder. tryRemovePrefix importText (getRelative old new @ ''/'') = Some remainder
          \<Longrightarrow> remainder \<noteq> []"
  proof
    fix remainder
    assume "tryRemovePrefix importText (getRelative old new @ ''/'') = Some remainder"
       and "remainder = []"
    then have "importText = getRelative old new @ ''/''" by (simp add: tryRemovePrefix_Some)
    with ne show False by simp
  qed
  then show "getInternalPathUpdater old new sf importText = internalPathUpdaterSpec old new sf importText"
    by (simp add: getInternalPathUpdater_def internalPathUpdaterSpec_def Let_def split: option.splits)
next
  assume "isMovedFile old new sf"
  then show "updateImportsOfFile program ct externalPathUpdater (getInternalPathUpdater old new) old new host sf =
        updateImportsWorker sf ct
          (\<lambda>referenceText. Inr (getInternalPathUpdater old new sf referenceText))
          (\<lambda>importText. Inr (getInternalPathUpdater old new sf importText))"
    by (simp add: updateImportsOfFile_def)
qed

theorem internal_updater_case_analysis_witness:
  "getInternalPathUpdater ''/p/dir'' ''/p/sub/dir'' innerFile ''../outside'' = Some ''../../outside'' \<and>
   internalPathUpdaterSpec ''/p/dir'' ''/p/sub/dir'' innerFile ''../outside'' = Some ''../../outside'' \<and>
   updateImportsOfFile exampleProgram []
       (getExternalPathUpdater ''/p/dir'' ''/p/sub/dir'' caseSensitiveHost)
       (getInternalPathUpdater ''/p/dir'' ''/p/sub/dir'') ''/p/dir'' ''/p/sub/dir'' caseSensitiveHost
       innerFile
     = Inr [\<lparr>change_file = ''/p/dir/inner.ts'', change_range = \<lparr>pos = 20, end_pos = 30\<rparr>,
             change_text = ''../../outside''\<rparr>]"
proof -
  have d1: "getRelative ''/p/sub/dir'' ''/p/dir'' = ''../../dir''" by code_simp
  have d2: "getRelative ''/p/dir'' ''/p/sub/dir'' = ''../sub/dir''" by code_simp
  have rel: "pathIsRelative ''../outside''" by code_simp
  have i1: "\<not> importIsInternalToDirectory ''/p/dir'' (fileName innerFile) ''../outside''" by code_simp
  have i2: "\<not> importIsInternalToDirectory ''/p/sub/dir'' (fileName innerFile) ''../outside''" by code_simp
  have pre: "tryRemovePrefix ''../outside'' (''../sub/dir'' @ ''/'') = None" by code_simp
  have comb: "combineNormal ''../../dir'' ''../outside'' = ''../../outside''" by code_simp
  have ne: "''../outside'' \<noteq> getRelative ''/p/dir'' ''/p/sub/dir'' @ ''/''" unfolding d2 by simp
  have moved: "isMovedFile ''/p/dir'' ''/p/sub/dir'' innerFile" by code_simp
  have worker: "updateImportsWorker innerFile []
          (\<lambda>referenceText. Inr (getInternalPathUpdater ''/p/dir'' ''/p/sub/dir'' innerFile referenceText))
          (\<lambda>importText. Inr (getInternalPathUpdater ''/p/dir'' ''/p/sub/dir'' innerFile importText))
        = Inr [\<lparr>change_file = ''/p/dir/inner.ts'', change_range = \<lparr>pos = 20, end_pos = 30\<rparr>,
                change_text = ''../../outside''\<rparr>]" by code_simp
  note inst = internal_updater_case_analysis [of "''/p/dir''" "''/p/sub/dir''" innerFile "''../outside''" exampleProgram "[]"
                   "getExternalPathUpdater ''/p/dir'' ''/p/sub/dir'' caseSensitiveHost" caseSensitiveHost]
  from inst have 1: "getInternalPathUpdater ''/p/dir'' ''/p/sub/dir'' innerFile ''../outside''
                      = Some ''../../outside''"
    unfolding d1 d2 using rel i1 i2 pre comb by simp
  from inst ne have "getInternalPathUpdater ''/p/dir'' ''/p/sub/dir'' innerFile ''../outside''
      = internalPathUpdaterSpec ''/p/dir'' ''/p/sub/dir'' innerFile ''../outside''" by blast
  with 1 have 2: "internalPathUpdaterSpec ''/p/dir'' ''/p/sub/dir'' innerFile ''../outside''
      = Some ''../../outside''" by simp
  from inst moved worker have 3: "updateImportsOfFile exampleProgram []
       (getExternalPathUpdater ''/p/dir'' ''/p/sub/dir'' caseSensitiveHost)
       (getInternalPathUpdater ''/p/dir'' ''/p/sub/dir'') ''/p/dir'' ''/p/sub/dir'' caseSensitiveHost
       innerFile
     = Inr [\<lparr>change_file = ''/p/dir/inner.ts'', change_range = \<lparr>pos = 20, end_pos = 30\<rparr>,
             change_text = ''../../outside''\<rparr>]" by simp
  from 1 2 3 show ?thesis by blast
qed

subsection \<open>The external path updater on paths inside the old path\<close>

text \<open>
  Claim C2, as stated, fails for imports: with \<^verbatim>\<open>/p/old\<close> renamed to \<^verbatim>\<open>/p/new\<close>, the import
  \<^verbatim>\<open>./old/a/b\<close> resolving to \<^verbatim>\<open>/p/old/a/b.ts\<close> is rewritten to \<^verbatim>\<open>./new/a/b\<close>, which does not
  end with the resolved suffix \<^verbatim>\<open>/a/b.ts\<close>: for an import the suffix is put in
  module-specifier form.
\<close>
theorem external_updater_import_suffix_counterexample:
  "removeDirectoryPrefixFromPath ''/p/old'' ''/p/old/a/b.ts'' = Some ''/a/b.ts'' \<and>
   getExternalPathUpdater ''/p/old'' ''/p/new'' caseSensitiveHost ''/p/old/a/b.ts'' ''./old/a/b'' True
     = Inr (Some ''./new/a/b'') \<and>
   \<not> endsWith ''./new/a/b'' ''/a/b.ts''"
  by code_simp

text \<open>
  The external updater asserts that relative text ends with the suffix. An import that
  names an index file explicitly does not: the suffix of \<^verbatim>\<open>/p/old/a/index.ts\<close> in
  module-specifier form is \<^verbatim>\<open>/a\<close>, and the assertion fails.
\<close>
lemma external_updater_explicit_index_raises:
  "getExternalPathUpdater ''/p/old'' ''/p/new'' caseSensitiveHost ''/p/old/a/index.ts''
     ''./old/a/index'' True = Inl AssertionFailure"
  by code_simp

text \<open>
  Claim C2, amended. Let the resolved path lie strictly inside the old path, with
  \<open>relToOld\<close> its part beyond the old path, and let the suffix be \<open>relToOld\<close> itself for a
  reference that is not an import and \<open>relToOld\<close> in module-specifier form for an import.
  For text that is not relative the updater returns the new path followed by the suffix.
  For relative text that ends with the suffix it returns the relative path \<open>rel\<close> combined
  with the directory of the text less the suffix, followed by the suffix. Whenever it
  returns at all, it returns a prefix followed by that suffix, so for a reference that is
  not an import the part beyond the old path is kept byte for byte. When the resolved path
  is neither the old path nor strictly inside it, the updater returns no change.
\<close>
theorem external_updater_inside_old_path:
  "(removeDirectoryPrefixFromPath old fullPath = Some relToOld \<and>
    suffix = (if isImport then pathToImportPath relToOld else relToOld) \<and>
    rel = getRelativePathFromFile old new (createGetCanonicalFileName (hostUsesCaseSensitiveFileNames host))
    \<longrightarrow>
    fullPath = old @ relToOld \<and>
    (\<not> pathIsRelative importText \<longrightarrow>
       getExternalPathUpdater old new host fullPath importText isImport = Inr (Some (new @ suffix))) \<and>
    (pathIsRelative importText \<and> importText = front @ suffix \<longrightarrow>
       getExternalPathUpdater old new host fullPath importText isImport =
         Inr (Some (combinePathsSafe (getDirectoryPath front) rel @ suffix))) \<and>
    (\<forall>r. getExternalPathUpdater old new host fullPath importText isImport = Inr r \<longrightarrow>
         (\<exists>newPrefix. r = Some (newPrefix @ suffix)))) \<and>
   (fullPath \<noteq> old \<and> removeDirectoryPrefixFromPath old fullPath = None \<longrightarrow>
      getExternalPathUpdater old new host fullPath importText isImport = Inr None)"
proof (intro conjI impI allI)
  assume h: "removeDirectoryPrefixFromPath old fullPath = Some relToOld \<and>
    suffix = (if isImport then pathToImportPath relToOld else relToOld) \<and>
    rel = getRelativePathFromFile old new (createGetCanonicalFileName (hostUsesCaseSensitiveFileNames host))"
  then have inside: "fullPath = old @ relToOld" and "relToOld \<noteq> []"
    by (auto simp: removeDirectoryPrefixFromPath_Some)
  then have ne: "fullPath \<noteq> old" by simp
  show "fullPath = old @ relToOld" by (rule inside)
  {
    assume "\<not> pathIsRelative importText"
    with h ne show "getExternalPathUpdater old new host fullPath importText isImport
                      = Inr (Some (new @ suffix))"
      by (simp add: getExternalPathUpdater_inside Let_def)
  }
  {
    assume a: "pathIsRelative importText \<and> importText = front @ suffix"
    then have rm: "tryRemoveSuffix importText suffix = Some front"
      by (simp add: tryRemoveSuffix_Some)
    from h have s: "(if isImport then pathToImportPath relToOld else relToOld) = suffix"
      and r: "getRelativePathFromFile old new
                (createGetCanonicalFileName (hostUsesCaseSensitiveFileNames host)) = rel"
      and p: "removeDirectoryPrefixFromPath old fullPath = Some relToOld"
      by simp_all
    from a have rl: "pathIsRelative importText" ..
    show "getExternalPathUpdater old new host fullPath importText isImport =
         Inr (Some (combinePathsSafe (getDirectoryPath front) rel @ suffix))"
      unfolding getExternalPathUpdater_inside [OF ne] p option.case Let_def s r
      using rl rm by simp
  }
  {
    fix r
    assume "getExternalPathUpdater old new host fullPath importText isImport = Inr r"
    with h ne show "\<exists>newPrefix. r = Some (newPrefix @ suffix)"
      by (auto simp: getExternalPathUpdater_inside Let_def split: if_splits option.splits)
  }
next
  assume "fullPath \<noteq> old \<and> removeDirectoryPrefixFromPath old fullPath = None"
  then show "getExternalPathUpdater old new host fullPath importText isImport = Inr None"
    by (simp add: getExternalPathUpdater_inside)
qed

theorem external_updater_inside_old_path_witness:
  "getExternalPathUpdater ''/p/old'' ''/p/new'' caseSensitiveHost ''/p/old/a/b.ts'' ''./old/a/b'' True
     = Inr (Some ''./new/a/b'') \<and>
   getExternalPathUpdater ''/p/old'' ''/p/new'' caseSensitiveHost ''/p/old/a/b.ts'' ''old/a/b.ts'' False
     = Inr (Some ''/p/new/a/b.ts'') \<and>
   getExternalPathUpdater ''/p/old'' ''/p/new'' caseSensitiveHost ''/p/older/a.ts'' ''./older/a'' True
     = Inr None"
proof -
  have in1: "removeDirectoryPrefixFromPath ''/p/old'' ''/p/old/a/b.ts'' = Some ''/a/b.ts''"
    by code_simp
  have suf1: "''/a/b'' = (if True then pathToImportPath ''/a/b.ts'' else ''/a/b.ts'')" by code_simp
  have suf2: "''/a/b.ts'' = (if False then pathToImportPath ''/a/b.ts'' else ''/a/b.ts'')" by simp
  have rel: "''./new'' = getRelativePathFromFile ''/p/old'' ''/p/new''
                (createGetCanonicalFileName (hostUsesCaseSensitiveFileNames caseSensitiveHost))"
    by code_simp
  have txt1: "pathIsRelative ''./old/a/b'' \<and> ''./old/a/b'' = ''./old'' @ ''/a/b''" by code_simp
  have comb: "combinePathsSafe (getDirectoryPath ''./old'') ''./new'' @ ''/a/b'' = ''./new/a/b''"
    by code_simp
  have txt2: "\<not> pathIsRelative ''old/a/b.ts''" by code_simp
  have out: "''/p/older/a.ts'' \<noteq> ''/p/old'' \<and>
             removeDirectoryPrefixFromPath ''/p/old'' ''/p/older/a.ts'' = None" by code_simp
  from external_updater_inside_old_path [of "''/p/old''" "''/p/old/a/b.ts''" "''/a/b.ts''" "''/a/b''" True "''./new''" "''/p/new''"
              caseSensitiveHost "''./old/a/b''" "''./old''"]
       in1 suf1 rel txt1
  have "getExternalPathUpdater ''/p/old'' ''/p/new'' caseSensitiveHost ''/p/old/a/b.ts'' ''./old/a/b'' True
     = Inr (Some (combinePathsSafe (getDirectoryPath ''./old'') ''./new'' @ ''/a/b''))"
    by blast
  then have 1: "getExternalPathUpdater ''/p/old'' ''/p/new'' caseSensitiveHost ''/p/old/a/b.ts''
                  ''./old/a/b'' True = Inr (Some ''./new/a/b'')"
    unfolding comb .
  from external_updater_inside_old_path [of "''/p/old''" "''/p/old/a/b.ts''" "''/a/b.ts''" "''/a/b.ts''" False "''./new''" "''/p/new''"
              caseSensitiveHost "''old/a/b.ts''" "''''"]
       in1 suf2 rel txt2
  have "getExternalPathUpdater ''/p/old'' ''/p/new'' caseSensitiveHost ''/p/old/a/b.ts'' ''old/a/b.ts'' False
     = Inr (Some (''/p/new'' @ ''/a/b.ts''))"
    by blast
  then have 2: "getExternalPathUpdater ''/p/old'' ''/p/new'' caseSensitiveHost ''/p/old/a/b.ts''
                  ''old/a/b.ts'' False = Inr (Some ''/p/new/a/b.ts'')"
    by simp
  from external_updater_inside_old_path [of "''/p/old''" "''/p/older/a.ts''" "''''" "''''" True "''''" "''/p/new''"
              caseSensitiveHost "''./older/a''" "''''"] out
  have 3: "getExternalPathUpdater ''/p/old'' ''/p/new'' caseSensitiveHost ''/p/older/a.ts'' ''./older/a'' True
     = Inr None"
    by blast
  from 1 2 3 show ?thesis by blast
qed

subsection \<open>The external path updater on the old path itself\<close>

text \<open>
  Claim C3, as stated, fails on its own example. With \<^verbatim>\<open>/p/old.ts\<close> renamed to
  \<^verbatim>\<open>/p/new.ts\<close>, the import \<^verbatim>\<open>./old\<close> is relative and has no index-like suffix; appending the
  relative path \<^verbatim>\<open>./new.ts\<close> to the text itself would give \<^verbatim>\<open>./old/new\<close>. The updater
  appends it to the directory of the text and gives \<^verbatim>\<open>./new\<close>, because the old path is not
  an index or package file.
\<close>
theorem external_updater_plain_file_counterexample:
  "pathIsRelative ''./old'' \<and> \<not> endsWithSomeIndex ''./old'' \<and>
   getExternalPathUpdater ''/p/old.ts'' ''/p/new.ts'' caseSensitiveHost ''/p/old.ts'' ''./old'' True
     = Inr (Some ''./new'') \<and>
   externalUpdaterAtOldSpec ''/p/old.ts'' ''/p/new.ts'' caseSensitiveHost ''./old'' True = ''./old/new''"
  by code_simp

text \<open>
  Claim C3, amended. When the resolved path is the old path the updater always returns a
  replacement. For relative text it is the relative path \<open>rel\<close> combined with the text
  itself when the old path has an index or package ending (with something before it) and
  the text does not end in \<^verbatim>\<open>index\<close> once its extension is removed, and combined with the
  directory of the text otherwise; for text that is not relative it is the new path. The
  result is put in module-specifier form exactly for an import. Where the old path has an
  index or package ending this is the rule as the spec words it. Renaming \<^verbatim>\<open>/p/old.ts\<close> to
  \<^verbatim>\<open>/p/new.ts\<close> rewrites the import \<^verbatim>\<open>./old\<close> of \<^verbatim>\<open>/p/a.ts\<close> to \<^verbatim>\<open>./new\<close>, also through the
  entry point.
\<close>
theorem external_updater_at_old_path:
  "getExternalPathUpdater old new host old importText isImport =
     Inr (Some
       (let rel = getRelativePathFromFile old new
                    (createGetCanonicalFileName (hostUsesCaseSensitiveFileNames host));
            newImportText =
              (if pathIsRelative importText
               then combinePathsSafe
                      (if truthy (tryRemoveIndexOrPackage old) \<and> \<not> endsWithSomeIndex importText
                       then importText else getDirectoryPath importText)
                      rel
               else new)
        in if isImport then pathToImportPath newImportText else newImportText)) \<and>
   (truthy (tryRemoveIndexOrPackage old) \<longrightarrow>
      getExternalPathUpdater old new host old importText isImport =
        Inr (Some (externalUpdaterAtOldSpec old new host importText isImport))) \<and>
   getExternalPathUpdater ''/p/old.ts'' ''/p/new.ts'' caseSensitiveHost ''/p/old.ts'' ''./old'' True
     = Inr (Some ''./new'') \<and>
   getEditsForFileRename exampleProgram ''/p/old.ts'' ''/p/new.ts'' caseSensitiveHost
     = Inr [\<lparr>change_file = ''/p/tsconfig.json'', change_range = \<lparr>pos = 15, end_pos = 24\<rparr>,
             change_text = ''/p/new.ts''\<rparr>,
            \<lparr>change_file = ''/p/a.ts'', change_range = \<lparr>pos = 20, end_pos = 25\<rparr>,
             change_text = ''./new''\<rparr>]"
proof (intro conjI impI)
  show "getExternalPathUpdater old new host old importText isImport =
     Inr (Some
       (let rel = getRelativePathFromFile old new
                    (createGetCanonicalFileName (hostUsesCaseSensitiveFileNames host));
            newImportText =
              (if pathIsRelative importText
               then combinePathsSafe
                      (if truthy (tryRemoveIndexOrPackage old) \<and> \<not> endsWithSomeIndex importText
                       then importText else getDirectoryPath importText)
                      rel
               else new)
        in if isImport then pathToImportPath newImportText else newImportText))"
    by (simp add: getExternalPathUpdater_at_old Let_def)
next
  assume "truthy (tryRemoveIndexOrPackage old)"
  then show "getExternalPathUpdater old new host old importText isImport =
        Inr (Some (externalUpdaterAtOldSpec old new host importText isImport))"
    by (simp add: getExternalPathUpdater_at_old externalUpdaterAtOldSpec_def Let_def)
next
  show "getExternalPathUpdater ''/p/old.ts'' ''/p/new.ts'' caseSensitiveHost ''/p/old.ts'' ''./old'' True
     = Inr (Some ''./new'')"
    by code_simp
next
  show "getEditsForFileRename exampleProgram ''/p/old.ts'' ''/p/new.ts'' caseSensitiveHost
     = Inr [\<lparr>change_file = ''/p/tsconfig.json'', change_range = \<lparr>pos = 15, end_pos = 24\<rparr>,
             change_text = ''/p/new.ts''\<rparr>,
            \<lparr>change_file = ''/p/a.ts'', change_range = \<lparr>pos = 20, end_pos = 25\<rparr>,
             change_text = ''./new''\<rparr>]"
    by code_simp
qed

theorem external_updater_at_old_path_witness:
  "getExternalPathUpdater ''/p/dir/index.ts'' ''/p/dir/main.ts'' caseSensitiveHost
      ''/p/dir/index.ts'' ''./dir'' True = Inr (Some ''./dir/main'') \<and>
   getExternalPathUpdater ''/p/dir/index.ts'' ''/p/dir/main.ts'' caseSensitiveHost
      ''/p/dir/index.ts'' ''./dir/index'' True = Inr (Some ''./dir/main'') \<and>
   getExternalPathUpdater ''/p/dir/index.ts'' ''/p/dir/main.ts'' caseSensitiveHost
      ''/p/dir/index.ts'' ''./dir/index.ts'' False = Inr (Some ''./dir/main.ts'')"
proof -
  have idx: "truthy (tryRemoveIndexOrPackage ''/p/dir/index.ts'')" by code_simp
  have s1: "externalUpdaterAtOldSpec ''/p/dir/index.ts'' ''/p/dir/main.ts'' caseSensitiveHost
              ''./dir'' True = ''./dir/main''" by code_simp
  have s2: "externalUpdaterAtOldSpec ''/p/dir/index.ts'' ''/p/dir/main.ts'' caseSensitiveHost
              ''./dir/index'' True = ''./dir/main''" by code_simp
  have s3: "externalUpdaterAtOldSpec ''/p/dir/index.ts'' ''/p/dir/main.ts'' caseSensitiveHost
              ''./dir/index.ts'' False = ''./dir/main.ts''" by code_simp
  from external_updater_at_old_path [of "''/p/dir/index.ts''" "''/p/dir/main.ts''" caseSensitiveHost "''./dir''" True] idx
  have 1: "getExternalPathUpdater ''/p/dir/index.ts'' ''/p/dir/main.ts'' caseSensitiveHost
      ''/p/dir/index.ts'' ''./dir'' True = Inr (Some ''./dir/main'')"
    unfolding s1 [symmetric] by blast
  from external_updater_at_old_path [of "''/p/dir/index.ts''" "''/p/dir/main.ts''" caseSensitiveHost "''./dir/index''" True] idx
  have 2: "getExternalPathUpdater ''/p/dir/index.ts'' ''/p/dir/main.ts'' caseSensitiveHost
      ''/p/dir/index.ts'' ''./dir/index'' True = Inr (Some ''./dir/main'')"
    unfolding s2 [symmetric] by blast
  from external_updater_at_old_path [of "''/p/dir/index.ts''" "''/p/dir/main.ts''" caseSensitiveHost "''./dir/index.ts''" False] idx
  have 3: "getExternalPathUpdater ''/p/dir/index.ts'' ''/p/dir/main.ts'' caseSensitiveHost
      ''/p/dir/index.ts'' ''./dir/index.ts'' False = Inr (Some ''./dir/main.ts'')"
    unfolding s3 [symmetric] by blast
  from 1 2 3 show ?thesis by blast
qed

subsection \<open>Renaming a path to itself\<close>














subsection \<open>Case sensitivity\<close>

text \<open>
  Claim C9, as stated, fails. On a host with case-insensitive file names, renaming
  \<^verbatim>\<open>/P/old.ts\<close> to \<^verbatim>\<open>/p/new.ts\<close> stays within one directory for the external updater, whose
  relative path, computed under the host's flag, is \<^verbatim>\<open>./new.ts\<close>; the same computation
  under that flag would give the internal updater the delta \<^verbatim>\<open>.\<close>. The internal updater
  computes its delta case-sensitively instead, gets \<^verbatim>\<open>../P\<close>, and rewrites the import
  \<^verbatim>\<open>./x\<close> of the moved file to \<^verbatim>\<open>../P/x\<close>. The comparison of a resolved path with the old path
  is case-sensitive on this host too: \<^verbatim>\<open>/p/OLD.ts\<close> is not taken for \<^verbatim>\<open>/p/old.ts\<close>.
\<close>
theorem internal_delta_ignores_host_flag_counterexample:
  "hostUsesCaseSensitiveFileNames caseInsensitiveHost = False \<and>
   getRelativePathFromFile ''/P/old.ts'' ''/p/new.ts''
     (createGetCanonicalFileName (hostUsesCaseSensitiveFileNames caseInsensitiveHost)) = ''./new.ts'' \<and>
   ensurePathIsNonModuleName
     (getRelativePathFromDirectory (toDirectory ''/p/new.ts'') (toDirectory ''/P/old.ts'')
        (GetCanonicalFileName
           (createGetCanonicalFileName (hostUsesCaseSensitiveFileNames caseInsensitiveHost)))) = ''.'' \<and>
   getRelative ''/p/new.ts'' ''/P/old.ts'' = ''../P'' \<and>
   getInternalPathUpdater ''/P/old.ts'' ''/p/new.ts'' upperCaseOldFile ''./x'' = Some ''../P/x'' \<and>
   getExternalPathUpdater ''/p/old.ts'' ''/p/new.ts'' caseInsensitiveHost ''/p/OLD.ts'' ''./OLD'' True
     = Inr None"
  by code_simp

text \<open>
  Claim C9, amended. The internal updater's directory deltas are always the case-sensitive
  relative paths, whatever the host says, so they agree with the computation under the
  host's flag when the host is case-sensitive. The external updater depends on the host
  only through its case-sensitivity flag, which enters the relative path \<open>rel\<close>; its tests
  of the resolved path against the old path are plain string comparisons: a path that is
  not the old path and does not have it as a directory prefix gives no change on every host.
\<close>
theorem case_sensitivity_of_path_computations:
  "getRelative from to =
     ensurePathIsNonModuleName
       (getRelativePathFromDirectory (toDirectory from) (toDirectory to)
          (GetCanonicalFileName (createGetCanonicalFileName True))) \<and>
   (hostUsesCaseSensitiveFileNames host \<longrightarrow>
      getRelative from to =
        ensurePathIsNonModuleName
          (getRelativePathFromDirectory (toDirectory from) (toDirectory to)
             (GetCanonicalFileName
                (createGetCanonicalFileName (hostUsesCaseSensitiveFileNames host))))) \<and>
   (hostUsesCaseSensitiveFileNames host = hostUsesCaseSensitiveFileNames host' \<longrightarrow>
      getExternalPathUpdater old new host = getExternalPathUpdater old new host') \<and>
   (fullPath \<noteq> old \<and> removeDirectoryPrefixFromPath old fullPath = None \<longrightarrow>
      getExternalPathUpdater old new host fullPath importText isImport = Inr None)"
proof (intro conjI impI)
  show sens: "getRelative from to =
     ensurePathIsNonModuleName
       (getRelativePathFromDirectory (toDirectory from) (toDirectory to)
          (GetCanonicalFileName (createGetCanonicalFileName True)))"
    by (simp add: getRelative_def getRelativePathFromDirectory_def createGetCanonicalFileName_def)
  {
    assume "hostUsesCaseSensitiveFileNames host"
    with sens show "getRelative from to =
        ensurePathIsNonModuleName
          (getRelativePathFromDirectory (toDirectory from) (toDirectory to)
             (GetCanonicalFileName
                (createGetCanonicalFileName (hostUsesCaseSensitiveFileNames host))))"
      by simp
  }
  {
    assume "hostUsesCaseSensitiveFileNames host = hostUsesCaseSensitiveFileNames host'"
    then show "getExternalPathUpdater old new host = getExternalPathUpdater old new host'"
      by (simp add: getExternalPathUpdater_def)
  }
  {
    assume "fullPath \<noteq> old \<and> removeDirectoryPrefixFromPath old fullPath = None"
    then show "getExternalPathUpdater old new host fullPath importText isImport = Inr None"
      by (simp add: getExternalPathUpdater_inside)
  }
qed

theorem case_sensitivity_of_path_computations_witness:
  "getRelative ''/p/sub/dir'' ''/p/dir'' =
     ensurePathIsNonModuleName
       (getRelativePathFromDirectory (toDirectory ''/p/sub/dir'') (toDirectory ''/p/dir'')
          (GetCanonicalFileName
             (createGetCanonicalFileName (hostUsesCaseSensitiveFileNames caseSensitiveHost)))) \<and>
   getExternalPathUpdater ''/p/old.ts'' ''/p/new.ts'' caseSensitiveHost
     = getExternalPathUpdater ''/p/old.ts'' ''/p/new.ts'' hostWithoutCache \<and>
   getExternalPathUpdater ''/p/old.ts'' ''/p/new.ts'' caseInsensitiveHost ''/p/OLD.ts'' ''./OLD'' True
     = Inr None"
proof -
  have s: "hostUsesCaseSensitiveFileNames caseSensitiveHost" by code_simp
  have e: "hostUsesCaseSensitiveFileNames caseSensitiveHost = hostUsesCaseSensitiveFileNames hostWithoutCache"
    by code_simp
  have n: "''/p/OLD.ts'' \<noteq> ''/p/old.ts'' \<and>
           removeDirectoryPrefixFromPath ''/p/old.ts'' ''/p/OLD.ts'' = None" by code_simp
  from case_sensitivity_of_path_computations [of "''/p/sub/dir''" "''/p/dir''" caseSensitiveHost hostWithoutCache
              "''/p/old.ts''" "''/p/new.ts''"] s e
  have 1: "getRelative ''/p/sub/dir'' ''/p/dir'' =
     ensurePathIsNonModuleName
       (getRelativePathFromDirectory (toDirectory ''/p/sub/dir'') (toDirectory ''/p/dir'')
          (GetCanonicalFileName
             (createGetCanonicalFileName (hostUsesCaseSensitiveFileNames caseSensitiveHost))))"
    and 2: "getExternalPathUpdater ''/p/old.ts'' ''/p/new.ts'' caseSensitiveHost
     = getExternalPathUpdater ''/p/old.ts'' ''/p/new.ts'' hostWithoutCache"
    by blast+
  from case_sensitivity_of_path_computations [of "''''" "''''" caseInsensitiveHost caseInsensitiveHost "''/p/old.ts''" "''/p/new.ts''"
              "''/p/OLD.ts''" "''./OLD''" True] n
  have 3: "getExternalPathUpdater ''/p/old.ts'' ''/p/new.ts'' caseInsensitiveHost ''/p/OLD.ts'' ''./OLD'' True
     = Inr None" by blast
  from 1 2 3 show ?thesis by blast
qed

end
